(* ===== verification/Prelude.thy ===== *)
theory Prelude
  imports Main "HOL-Library.List_Lexorder" "HOL-Library.Char_ord" "HOL-Library.Multiset" "HOL-Library.Sublist"
begin

text \<open>
  Shared vocabulary of the development. The handlers of \<^verbatim>\<open>src/token_trackr.py\<close>
  are coroutines that read and write external state (two SQLite files, the Discord
  interaction, a Chrome session, the log) and may raise at every call. They are modelled
  in a state-and-exception monad \<open>('s, 'a) py\<close>: a computation takes the state and
  returns either the raised exception (\<open>Inl\<close>) or its value (\<open>Inr\<close>), together with the
  state reached, so that effects performed before a raise are kept, as in Python.
  The combinators \<open>py_try\<close> and \<open>py_finally\<close> are Python's \<^verbatim>\<open>try/except Exception\<close>
  and \<^verbatim>\<open>try/finally\<close>. The theory also holds the Python string functions the
  handlers use (\<^verbatim>\<open>str.strip\<close>, \<^verbatim>\<open>str(int)\<close>) and their lemmas.
\<close>

named_theorems py_simps "evaluation rules of the Python monad"

section \<open>Exceptions\<close>

text \<open>The exceptions the modelled code can raise or meet (all subclasses of
  \<^verbatim>\<open>Exception\<close>, so every \<^verbatim>\<open>except Exception\<close> of the source catches them).\<close>

datatype exc =
    NameError string                \<comment> \<open>a global name that is not defined\<close>
  | UnboundLocalError string        \<comment> \<open>a local variable read before assignment\<close>
  | OperationalError string         \<comment> \<open>\<^verbatim>\<open>sqlite3.OperationalError\<close>\<close>
  | WebDriverException string       \<comment> \<open>selenium: launch or navigation failed\<close>
  | TimeoutException                \<comment> \<open>selenium: \<^verbatim>\<open>WebDriverWait.until\<close> expired\<close>
  | InteractionResponded            \<comment> \<open>discord: a second initial response\<close>
  | HTTPException nat string        \<comment> \<open>discord: the REST call was refused\<close>

section \<open>The state-and-exception monad\<close>

type_synonym ('s, 'a) py = "'s \<Rightarrow> (exc + 'a) \<times> 's"

definition py_return :: "'a \<Rightarrow> ('s, 'a) py" where
  "py_return a = (\<lambda>s. (Inr a, s))"

definition py_raise :: "exc \<Rightarrow> ('s, 'a) py" where
  "py_raise e = (\<lambda>s. (Inl e, s))"

definition py_bind :: "('s, 'a) py \<Rightarrow> ('a \<Rightarrow> ('s, 'b) py) \<Rightarrow> ('s, 'b) py" where
  "py_bind m f = (\<lambda>s. case m s of (Inl e, s') \<Rightarrow> (Inl e, s') | (Inr a, s') \<Rightarrow> f a s')"

definition py_seq :: "('s, 'a) py \<Rightarrow> ('s, 'b) py \<Rightarrow> ('s, 'b) py" where
  "py_seq m n = py_bind m (\<lambda>_. n)"

definition py_map :: "('a \<Rightarrow> 'b) \<Rightarrow> ('s, 'a) py \<Rightarrow> ('s, 'b) py" where
  "py_map f m = py_bind m (\<lambda>a. py_return (f a))"

definition py_modify :: "('s \<Rightarrow> 's) \<Rightarrow> ('s, unit) py" where
  "py_modify f = (\<lambda>s. (Inr (), f s))"

text \<open>\<^verbatim>\<open>try: m except Exception as e: h(e)\<close>\<close>

definition py_try :: "('s, 'a) py \<Rightarrow> (exc \<Rightarrow> ('s, 'a) py) \<Rightarrow> ('s, 'a) py" where
  "py_try m h = (\<lambda>s. case m s of (Inl e, s') \<Rightarrow> h e s' | (Inr a, s') \<Rightarrow> (Inr a, s'))"

text \<open>\<^verbatim>\<open>try: m finally: f\<close>: the clause runs on every exit of \<open>m\<close>; an exception it
  raises replaces the outcome of \<open>m\<close>, otherwise that outcome is kept.\<close>

definition py_finally :: "('s, 'a) py \<Rightarrow> ('s, unit) py \<Rightarrow> ('s, 'a) py" where
  "py_finally m f = (\<lambda>s. case m s of (r, s') \<Rightarrow>
     (case f s' of (Inl e, s'') \<Rightarrow> (Inl e, s'') | (Inr _, s'') \<Rightarrow> (r, s'')))"

subsection \<open>Properties every run keeps\<close>

text \<open>\<open>py_keeps R m\<close>: every run of \<open>m\<close>, whatever its outcome, relates its initial
  and its final state by \<open>R\<close>. For a preorder \<open>R\<close> (a frame condition, a growing log)
  the property is closed under every combinator, so it is proved of a handler by the
  rules of \<open>keeps_intros\<close> alone.\<close>

definition py_keeps :: "('s \<Rightarrow> 's \<Rightarrow> bool) \<Rightarrow> ('s, 'a) py \<Rightarrow> bool" where
  "py_keeps R m \<longleftrightarrow> (\<forall>s. R s (snd (m s)))"

named_theorems keeps_intros "closure rules of py_keeps"

section \<open>Python strings\<close>

text \<open>
  Python's \<^verbatim>\<open>str\<close> is a sequence of code points. The model's strings are
  \<open>char list\<close>, the code points below 256 (Latin-1); within that range
  \<^verbatim>\<open>str.isspace\<close> holds exactly for the characters below.
\<close>

definition py_isspace :: "char \<Rightarrow> bool" where
  "py_isspace c \<longleftrightarrow> (let n = of_char c :: nat in
     (9 \<le> n \<and> n \<le> 13) \<or> (28 \<le> n \<and> n \<le> 32) \<or> n = 133 \<or> n = 160)"

text \<open>\<^verbatim>\<open>str.strip()\<close> without argument: whitespace removed at both ends.\<close>

definition py_strip :: "string \<Rightarrow> string" where
  "py_strip s = rev (dropWhile py_isspace (rev (dropWhile py_isspace s)))"

text \<open>\<^verbatim>\<open>str(n)\<close> for an \<^verbatim>\<open>int\<close>: decimal digits, a minus sign before a negative value.\<close>

definition digit_char :: "nat \<Rightarrow> char" where
  "digit_char d = char_of (48 + d)"

fun nat_digits :: "nat \<Rightarrow> string" where
  "nat_digits n = (if n < 10 then [digit_char n] else nat_digits (n div 10) @ [digit_char (n mod 10)])"

declare nat_digits.simps [simp del]

definition py_str_int :: "int \<Rightarrow> string" where
  "py_str_int i = (if i < 0 then CHR ''-'' # nat_digits (nat (- i)) else nat_digits (nat i))"

section \<open>Lemmas on the monad\<close>

lemma py_return_apply [simp, py_simps]: "py_return a s = (Inr a, s)"
  by (simp add: py_return_def)

lemma py_raise_apply [simp, py_simps]: "py_raise e s = (Inl e, s)"
  by (simp add: py_raise_def)

lemma py_modify_apply [simp, py_simps]: "py_modify f s = (Inr (), f s)"
  by (simp add: py_modify_def)

lemma py_bind_apply [py_simps]:
  "py_bind m f s = (case m s of (Inl e, s') \<Rightarrow> (Inl e, s') | (Inr a, s') \<Rightarrow> f a s')"
  by (simp add: py_bind_def)

lemma py_try_apply [py_simps]:
  "py_try m h s = (case m s of (Inl e, s') \<Rightarrow> h e s' | (Inr a, s') \<Rightarrow> (Inr a, s'))"
  by (simp add: py_try_def)

lemma py_finally_apply [py_simps]:
  "py_finally m f s = (case m s of (r, s') \<Rightarrow>
     (case f s' of (Inl e, s'') \<Rightarrow> (Inl e, s'') | (Inr _, s'') \<Rightarrow> (r, s'')))"
  by (simp add: py_finally_def)

text \<open>Rewriting a bind whose first computation is known: the rules the component
  proofs run on.\<close>

lemma py_bind_Inl [simp]: "m s = (Inl e, s') \<Longrightarrow> py_bind m f s = (Inl e, s')"
  by (simp add: py_bind_def)

lemma py_bind_Inr [simp]: "m s = (Inr a, s') \<Longrightarrow> py_bind m f s = f a s'"
  by (simp add: py_bind_def)

lemma py_try_Inl [simp]: "m s = (Inl e, s') \<Longrightarrow> py_try m h s = h e s'"
  by (simp add: py_try_def)

lemma py_try_Inr [simp]: "m s = (Inr a, s') \<Longrightarrow> py_try m h s = (Inr a, s')"
  by (simp add: py_try_def)

lemma py_seq_bind [simp]: "py_seq m n = py_bind m (\<lambda>_. n)"
  by (simp add: py_seq_def)

lemma py_map_bind [simp]: "py_map f m = py_bind m (\<lambda>a. py_return (f a))"
  by (simp add: py_map_def)

lemma py_bind_return_left [simp]: "py_bind (py_return a) f = f a"
  by (simp add: py_bind_def fun_eq_iff)

lemma py_bind_raise [simp]: "py_bind (py_raise e) f = py_raise e"
  by (simp add: py_bind_def fun_eq_iff)

lemma py_bind_return_right: "py_bind m py_return = m"
  by (simp add: py_bind_def fun_eq_iff split: prod.splits sum.splits)

lemma py_bind_assoc:
  "py_bind (py_bind m f) g = py_bind m (\<lambda>a. py_bind (f a) g)"
  by (simp add: py_bind_def fun_eq_iff split: prod.splits sum.splits)

lemma py_try_return [simp]: "py_try (py_return a) h = py_return a"
  by (simp add: py_try_def fun_eq_iff)

lemma py_try_raise [simp]: "py_try (py_raise e) h = h e"
  by (simp add: py_try_def fun_eq_iff)

text \<open>An exception handler that cannot raise makes the whole \<^verbatim>\<open>try\<close> statement
  return normally.\<close>

lemma py_try_total:
  assumes "\<And>e s. \<exists>a s'. h e s = (Inr a, s')"
  shows "\<exists>a s'. py_try m h s = (Inr a, s')"
  using assms by (cases "m s") (auto simp: py_try_def split: sum.splits)

lemma py_finally_total:
  assumes "\<And>s. \<exists>s'. f s = (Inr (), s')"
  shows "fst (py_finally m f s) = fst (m s)"
proof -
  obtain r s' where m: "m s = (r, s')" by fastforce
  from assms obtain s'' where "f s' = (Inr (), s'')" by blast
  with m show ?thesis by (simp add: py_finally_def)
qed

lemma py_keepsD: "py_keeps R m \<Longrightarrow> m s = (r, s') \<Longrightarrow> R s s'"
  by (metis py_keeps_def snd_conv)

lemma keeps_return [keeps_intros]: "reflp R \<Longrightarrow> py_keeps R (py_return a)"
  by (simp add: py_keeps_def reflpD)

lemma keeps_raise [keeps_intros]: "reflp R \<Longrightarrow> py_keeps R (py_raise e)"
  by (simp add: py_keeps_def reflpD)

lemma keeps_modify [keeps_intros]: "(\<And>s. R s (f s)) \<Longrightarrow> py_keeps R (py_modify f)"
  by (simp add: py_keeps_def)

lemma keeps_bind [keeps_intros]:
  assumes "transp R" "py_keeps R m" "\<And>a. py_keeps R (f a)"
  shows "py_keeps R (py_bind m f)"
  unfolding py_keeps_def
proof
  fix s
  obtain r s' where m: "m s = (r, s')" by fastforce
  have "R s s'" using assms(2) m by (rule py_keepsD)
  then show "R s (snd (py_bind m f s))"
    using assms m by (cases r) (auto simp: py_keeps_def dest: transpD)
qed

lemma keeps_seq [keeps_intros]:
  "transp R \<Longrightarrow> py_keeps R m \<Longrightarrow> py_keeps R n \<Longrightarrow> py_keeps R (py_seq m n)"
  by (simp add: keeps_bind)

lemma keeps_map [keeps_intros]:
  "reflp R \<Longrightarrow> transp R \<Longrightarrow> py_keeps R m \<Longrightarrow> py_keeps R (py_map f m)"
  by (simp add: keeps_bind keeps_return)

lemma keeps_try [keeps_intros]:
  assumes "transp R" "py_keeps R m" "\<And>e. py_keeps R (h e)"
  shows "py_keeps R (py_try m h)"
  unfolding py_keeps_def
proof
  fix s
  obtain r s' where m: "m s = (r, s')" by fastforce
  have "R s s'" using assms(2) m by (rule py_keepsD)
  then show "R s (snd (py_try m h s))"
    using assms m by (cases r) (auto simp: py_keeps_def dest: transpD)
qed

lemma keeps_finally [keeps_intros]:
  assumes "transp R" "py_keeps R m" "py_keeps R f"
  shows "py_keeps R (py_finally m f)"
  unfolding py_keeps_def
proof
  fix s
  obtain r s' where m: "m s = (r, s')" by fastforce
  obtain r' s'' where f: "f s' = (r', s'')" by fastforce
  have "R s s'" using assms(2) m by (rule py_keepsD)
  moreover have "R s' s''" using assms(3) f by (rule py_keepsD)
  ultimately show "R s (snd (py_finally m f s))"
    using assms(1) m f by (cases r') (auto simp: py_finally_def dest: transpD)
qed

lemma keeps_if [keeps_intros]:
  "py_keeps R m \<Longrightarrow> py_keeps R n \<Longrightarrow> py_keeps R (if b then m else n)"
  by simp

lemma keeps_case_sum [keeps_intros]:
  "(\<And>e. py_keeps R (m e)) \<Longrightarrow> (\<And>a. py_keeps R (n a)) \<Longrightarrow>
     py_keeps R (case x of Inl e \<Rightarrow> m e | Inr a \<Rightarrow> n a)"
  by (cases x) simp_all

lemma keeps_case_option [keeps_intros]:
  "py_keeps R m \<Longrightarrow> (\<And>a. py_keeps R (n a)) \<Longrightarrow> py_keeps R (case x of None \<Rightarrow> m | Some a \<Rightarrow> n a)"
  by (cases x) simp_all

section \<open>Lemmas on strings\<close>

subsection \<open>Lemmas on \<^verbatim>\<open>str(int)\<close>\<close>

lemma nat_digits_nonempty: "nat_digits n \<noteq> []"
  by (subst nat_digits.simps) simp

subsection \<open>Lemmas on \<^verbatim>\<open>str.strip\<close>\<close>

lemma rev_dropWhile_rev_prefix:
  "xs = rev (dropWhile P (rev xs)) @ rev (takeWhile P (rev xs))"
  by (metis rev_append rev_rev_ident takeWhile_dropWhile_id)

lemma py_strip_decomp:
  "s = takeWhile py_isspace s @ py_strip s @ rev (takeWhile py_isspace (rev (dropWhile py_isspace s)))"
  unfolding py_strip_def
  by (metis append.assoc rev_dropWhile_rev_prefix takeWhile_dropWhile_id)

lemma py_strip_ends:
  assumes "py_strip s \<noteq> []"
  shows "\<not> py_isspace (hd (py_strip s))" and "\<not> py_isspace (last (py_strip s))"
proof -
  let ?t = "dropWhile py_isspace s"
  have t: "?t = py_strip s @ rev (takeWhile py_isspace (rev ?t))"
    unfolding py_strip_def by (rule rev_dropWhile_rev_prefix)
  with assms have "?t \<noteq> []" by (metis Nil_is_append_conv)
  then have "\<not> py_isspace (hd ?t)" by (simp add: hd_dropWhile)
  with t assms show "\<not> py_isspace (hd (py_strip s))" by (metis hd_append2)
  have "dropWhile py_isspace (rev ?t) \<noteq> []" using assms by (simp add: py_strip_def)
  then have "\<not> py_isspace (hd (dropWhile py_isspace (rev ?t)))" by (simp add: hd_dropWhile)
  then show "\<not> py_isspace (last (py_strip s))"
    by (simp add: py_strip_def last_rev)
qed

lemma takeWhile_dropWhile_Nil: "takeWhile P (dropWhile P xs) = []"
  by (induction xs) auto

lemma py_strip_trimmed:
  "takeWhile py_isspace (py_strip s) = [] \<and> takeWhile py_isspace (rev (py_strip s)) = []"
proof (cases "py_strip s = []")
  case False
  then have "\<not> py_isspace (hd (py_strip s))" by (rule py_strip_ends)
  with False have "takeWhile py_isspace (py_strip s) = []" by (cases "py_strip s") auto
  then show ?thesis by (simp add: py_strip_def takeWhile_dropWhile_Nil)
qed simp

end
