(* ===== verification/Platform.thy ===== *)
theory Platform
  imports Prelude
begin

text \<open>
  The state the bot's handlers act on, and the chat platform's response channel. The
  state record \<open>bot_state\<close> holds the two SQLite tables the source names
  (\<^verbatim>\<open>awarded_tokens\<close> in \<^verbatim>\<open>tokens.db\<close>, \<^verbatim>\<open>kills\<close> in \<^verbatim>\<open>kill_log.db\<close>; \<open>None\<close> for a
  table that does not exist), the clock that SQLite's \<^verbatim>\<open>CURRENT_TIMESTAMP\<close> reads, the
  response state of the interaction being handled, and the list of observable effects
  (messages sent, log lines, browser calls) in the order they happen.

  The response channel is the contract of \<^verbatim>\<open>discord.Interaction\<close> that the handlers rely
  on: one initial response (\<^verbatim>\<open>response.send_message\<close> or \<^verbatim>\<open>response.defer\<close>), a second
  one raises \<^verbatim>\<open>InteractionResponded\<close>; follow-ups (\<^verbatim>\<open>followup.send\<close>) only after it;
  message content must be non-empty and at most 2000 characters, otherwise the REST call
  fails with \<^verbatim>\<open>HTTPException\<close> (status 400). The SDK itself is not part of the
  repository; these definitions state what the handlers assume of it.
\<close>

section \<open>Observable effects\<close>

datatype effect =
    SendMessage string     \<comment> \<open>\<^verbatim>\<open>interaction.response.send_message(msg)\<close>\<close>
  | DeferResponse          \<comment> \<open>\<^verbatim>\<open>interaction.response.defer()\<close>\<close>
  | FollowupSend string    \<comment> \<open>\<^verbatim>\<open>interaction.followup.send(msg)\<close>\<close>
  | LogInfo string         \<comment> \<open>\<^verbatim>\<open>logger.info(msg)\<close>\<close>
  | LogError string        \<comment> \<open>\<^verbatim>\<open>logger.error(msg)\<close>\<close>
  | ChromeLaunch           \<comment> \<open>\<^verbatim>\<open>webdriver.Chrome(service=..., options=...)\<close> started a browser\<close>
  | ChromeGet string       \<comment> \<open>\<^verbatim>\<open>driver.get(url)\<close>\<close>
  | ChromeQuit             \<comment> \<open>\<^verbatim>\<open>driver.quit()\<close>\<close>
  | Unhandled exc          \<comment> \<open>the command tree reports an exception a handler raised\<close>
  | BotRun string          \<comment> \<open>\<^verbatim>\<open>bot.run(TOKEN)\<close>: the event loop starts\<close>

datatype response_state = NotResponded | Responded | ResponseDeferred

section \<open>Rows and state\<close>

text \<open>A row of \<^verbatim>\<open>awarded_tokens\<close> (\<^verbatim>\<open>init_db\<close>, lines 45--50): the timestamp column is
  filled by \<^verbatim>\<open>DEFAULT CURRENT_TIMESTAMP\<close>.\<close>

record token_row =
  user_id :: int
  awarded_by :: string
  reason :: string
  timestamp :: nat

text \<open>A row of \<^verbatim>\<open>kills\<close> as the \<^verbatim>\<open>killstats\<close> query reads it:
  \<^verbatim>\<open>(user_id, ship_killed, pilot_killed)\<close>.\<close>

type_synonym kill_row = "int \<times> string \<times> string"

record bot_state =
  awarded_tokens :: "token_row list option"
  kills :: "kill_row list option"
  clock :: nat
  response :: response_state
  effects :: "effect list"

text \<open>The part of \<^verbatim>\<open>discord.Interaction\<close> the handlers read: \<^verbatim>\<open>interaction.user.name\<close>
  and \<^verbatim>\<open>interaction.user.id\<close>.\<close>

record interaction =
  inter_user_name :: string
  inter_user_id :: int

text \<open>A state with both tables present and empty and a fresh interaction, for examples.\<close>

abbreviation fresh_state :: bot_state where
  "fresh_state \<equiv> \<lparr>awarded_tokens = Some [], kills = Some [], clock = 0, response = NotResponded, effects = []\<rparr>"

abbreviation example_user :: interaction where
  "example_user \<equiv> \<lparr>inter_user_name = ''Osiris'', inter_user_id = 42\<rparr>"

section \<open>The response channel\<close>

definition max_message_len :: nat where
  "max_message_len = 2000"

definition emit :: "effect \<Rightarrow> ('x bot_state_scheme, unit) py" where
  "emit ev = py_modify (\<lambda>s. s\<lparr>effects := effects s @ [ev]\<rparr>)"

definition check_content :: "string \<Rightarrow> ('x bot_state_scheme, unit) py" where
  "check_content msg =
     (if msg = [] then py_raise (HTTPException 400 ''Cannot send an empty message'')
      else if max_message_len < length msg
      then py_raise (HTTPException 400 ''Must be 2000 or fewer in length.'')
      else py_return ())"

definition send_message :: "string \<Rightarrow> ('x bot_state_scheme, unit) py" where
  "send_message msg = (\<lambda>s.
     if response s \<noteq> NotResponded then (Inl InteractionResponded, s)
     else py_seq (check_content msg)
            (py_modify (\<lambda>s. s\<lparr>response := Responded, effects := effects s @ [SendMessage msg]\<rparr>)) s)"

definition response_defer :: "('x bot_state_scheme, unit) py" where
  "response_defer = (\<lambda>s.
     if response s \<noteq> NotResponded then (Inl InteractionResponded, s)
     else (Inr (), s\<lparr>response := ResponseDeferred, effects := effects s @ [DeferResponse]\<rparr>))"

definition followup_send :: "string \<Rightarrow> ('x bot_state_scheme, unit) py" where
  "followup_send msg = (\<lambda>s.
     if response s = NotResponded then (Inl (HTTPException 404 ''Unknown Webhook''), s)
     else py_seq (check_content msg) (emit (FollowupSend msg)) s)"

definition log_info :: "string \<Rightarrow> ('x bot_state_scheme, unit) py" where
  "log_info msg = emit (LogInfo msg)"

definition log_error :: "string \<Rightarrow> ('x bot_state_scheme, unit) py" where
  "log_error msg = emit (LogError msg)"

section \<open>Exception messages\<close>

text \<open>\<^verbatim>\<open>str(e)\<close> of the exceptions, as the log lines print them.\<close>

abbreviation apos :: char where
  "apos \<equiv> CHR 0x27"

fun exc_str :: "exc \<Rightarrow> string" where
  "exc_str (NameError n) = ''name '' @ apos # n @ apos # '' is not defined''"
| "exc_str (UnboundLocalError n) =
     ''cannot access local variable '' @ apos # n @ apos # '' where it is not associated with a value''"
| "exc_str (OperationalError m) = m"
| "exc_str (WebDriverException m) = ''Message: '' @ m"
| "exc_str TimeoutException = ''Message: ''"
| "exc_str InteractionResponded = ''This interaction has already been responded to before''"
| "exc_str (HTTPException n m) = py_str_int (int n) @ '' Bad Request: '' @ m"


section \<open>Observers of the effect log\<close>

text \<open>The messages a user sees as follow-ups, and the effects a step appended.\<close>

fun followups :: "effect list \<Rightarrow> string list" where
  "followups [] = []"
| "followups (FollowupSend m # es) = m # followups es"
| "followups (_ # es) = followups es"

definition new_effects :: "'x bot_state_scheme \<Rightarrow> 'x bot_state_scheme \<Rightarrow> effect list" where
  "new_effects s s' = drop (length (effects s)) (effects s')"

section \<open>Lemmas on the channel\<close>

text \<open>Two frame relations: \<open>same_store\<close> (the tables and the clock are untouched) and
  \<open>log_grows\<close> (effects are only appended, never retracted). Both are preorders, so
  \<open>keeps_intros\<close> lifts them from the primitives below to every handler.\<close>

definition same_store :: "'x bot_state_scheme \<Rightarrow> 'x bot_state_scheme \<Rightarrow> bool" where
  "same_store s s' \<longleftrightarrow>
     awarded_tokens s' = awarded_tokens s \<and> kills s' = kills s \<and> clock s' = clock s"

definition log_grows :: "'x bot_state_scheme \<Rightarrow> 'x bot_state_scheme \<Rightarrow> bool" where
  "log_grows s s' \<longleftrightarrow> prefix (effects s) (effects s')"

definition browser_balanced :: "'x bot_state_scheme \<Rightarrow> 'x bot_state_scheme \<Rightarrow> bool" where
  "browser_balanced s s' \<longleftrightarrow> prefix (effects s) (effects s') \<and>
     count_list (new_effects s s') ChromeLaunch \<le> count_list (new_effects s s') ChromeQuit"

lemma same_store_preorder [simp]: "reflp same_store" "transp same_store"
  by (auto simp: same_store_def reflp_def transp_def)

lemma log_grows_preorder [simp]: "reflp log_grows" "transp log_grows"
  by (auto simp: log_grows_def reflp_def transp_def intro: prefix_order.order_trans)

lemma followups_append [simp]: "followups (xs @ ys) = followups xs @ followups ys"
  by (induction xs rule: followups.induct) simp_all

lemma new_effects_append [simp]: "new_effects s (s'\<lparr>effects := effects s @ es\<rparr>) = es"
  by (simp add: new_effects_def)

lemma browser_balanced_append:
  "browser_balanced s (s'\<lparr>effects := effects s @ es\<rparr>) \<longleftrightarrow> count_list es ChromeLaunch \<le> count_list es ChromeQuit"
  by (simp add: browser_balanced_def)

lemma browser_balanced_preorder [simp]: "reflp browser_balanced" "transp browser_balanced"
proof -
  show "reflp browser_balanced" by (simp add: reflp_def browser_balanced_def new_effects_def)
  show "transp browser_balanced"
  proof (rule transpI)
    fix x y z :: "'x bot_state_scheme"
    assume xy: "browser_balanced x y" and yz: "browser_balanced y z"
    then obtain u v where u: "effects y = effects x @ u" and v: "effects z = effects y @ v"
      by (auto simp: browser_balanced_def prefix_def)
    with xy yz show "browser_balanced x z" by (simp add: browser_balanced_def new_effects_def)
  qed
qed

lemma emit_apply [simp]: "emit ev s = (Inr (), s\<lparr>effects := effects s @ [ev]\<rparr>)"
  by (simp add: emit_def)

lemma check_content_ok [simp]:
  "msg \<noteq> [] \<Longrightarrow> length msg \<le> max_message_len \<Longrightarrow> check_content msg = py_return ()"
  by (simp add: check_content_def)

lemma check_content_long [simp]:
  "max_message_len < length msg \<Longrightarrow>
     check_content msg = py_raise (HTTPException 400 ''Must be 2000 or fewer in length.'')"
  by (auto simp: check_content_def)

lemma check_content_state: "check_content msg s = (r, s') \<Longrightarrow> s' = s"
  by (auto simp: check_content_def split: if_splits)

lemma send_message_ok [simp]:
  "response s = NotResponded \<Longrightarrow> msg \<noteq> [] \<Longrightarrow> length msg \<le> max_message_len \<Longrightarrow>
     send_message msg s = (Inr (), s\<lparr>response := Responded, effects := effects s @ [SendMessage msg]\<rparr>)"
  by (simp add: send_message_def)

lemma send_message_long [simp]:
  "response s = NotResponded \<Longrightarrow> max_message_len < length msg \<Longrightarrow>
     send_message msg s = (Inl (HTTPException 400 ''Must be 2000 or fewer in length.''), s)"
  by (simp add: send_message_def)

lemma send_message_again [simp]:
  "response s \<noteq> NotResponded \<Longrightarrow> send_message msg s = (Inl InteractionResponded, s)"
  by (simp add: send_message_def)

lemma response_defer_ok [simp]:
  "response s = NotResponded \<Longrightarrow>
     response_defer s = (Inr (), s\<lparr>response := ResponseDeferred, effects := effects s @ [DeferResponse]\<rparr>)"
  by (simp add: response_defer_def)

lemma followup_send_ok [simp]:
  "response s \<noteq> NotResponded \<Longrightarrow> msg \<noteq> [] \<Longrightarrow> length msg \<le> max_message_len \<Longrightarrow>
     followup_send msg s = (Inr (), s\<lparr>effects := effects s @ [FollowupSend msg]\<rparr>)"
  by (simp add: followup_send_def)

lemma followup_send_long [simp]:
  "response s \<noteq> NotResponded \<Longrightarrow> max_message_len < length msg \<Longrightarrow>
     followup_send msg s = (Inl (HTTPException 400 ''Must be 2000 or fewer in length.''), s)"
  by (simp add: followup_send_def)

lemma log_apply [simp]:
  "log_info msg s = (Inr (), s\<lparr>effects := effects s @ [LogInfo msg]\<rparr>)"
  "log_error msg s = (Inr (), s\<lparr>effects := effects s @ [LogError msg]\<rparr>)"
  by (simp_all add: log_info_def log_error_def)

text \<open>The channel's primitives touch neither the tables nor the clock, and only append
  to the effects.\<close>

lemma channel_same_store [keeps_intros]:
  "py_keeps same_store (emit ev)"
  "py_keeps same_store (check_content msg)"
  "py_keeps same_store (send_message msg)"
  "py_keeps same_store response_defer"
  "py_keeps same_store (followup_send msg)"
  "py_keeps same_store (log_info msg)"
  "py_keeps same_store (log_error msg)"
  by (auto simp: py_keeps_def same_store_def send_message_def response_defer_def
      followup_send_def check_content_def py_bind_def split: prod.splits sum.splits)

lemma channel_browser_balanced [keeps_intros]:
  "ev \<noteq> ChromeLaunch \<Longrightarrow> py_keeps browser_balanced (emit ev)"
  "py_keeps browser_balanced (check_content msg)"
  "py_keeps browser_balanced (send_message msg)"
  "py_keeps browser_balanced response_defer"
  "py_keeps browser_balanced (followup_send msg)"
  "py_keeps browser_balanced (log_info msg)"
  "py_keeps browser_balanced (log_error msg)"
  by (auto simp: py_keeps_def browser_balanced_def new_effects_def send_message_def response_defer_def
      followup_send_def check_content_def py_bind_def split: prod.splits sum.splits)

lemma channel_log_grows [keeps_intros]:
  "py_keeps log_grows (emit ev)"
  "py_keeps log_grows (check_content msg)"
  "py_keeps log_grows (send_message msg)"
  "py_keeps log_grows response_defer"
  "py_keeps log_grows (followup_send msg)"
  "py_keeps log_grows (log_info msg)"
  "py_keeps log_grows (log_error msg)"
  by (auto simp: py_keeps_def log_grows_def send_message_def response_defer_def
      followup_send_def check_content_def py_bind_def split: prod.splits sum.splits)

lemma send_message_outcome:
  assumes "response s = NotResponded" "send_message m s = (r, s')"
  shows "r \<noteq> Inl InteractionResponded \<and> (r = Inr () \<longrightarrow> response s' = Responded)"
  using assms by (auto simp: send_message_def check_content_def split: if_splits)

end
