(* ===== verification/Store.thy ===== *)
theory Store
  imports Platform "HOL-Library.Product_Lexorder"
begin

text \<open>
  The persistence layer: the statements the source runs against its two SQLite files.
  Each \<^verbatim>\<open>with sqlite3.connect(...)\<close> block runs one statement and commits, so each is
  one atomic step on the table it names. A table that does not exist is \<open>None\<close>, and a
  statement on it raises \<^verbatim>\<open>OperationalError: no such table\<close>, as SQLite does.
  \<^item> \<open>init_db\<close> (lines 42--51): \<^verbatim>\<open>CREATE TABLE IF NOT EXISTS awarded_tokens\<close>.
  \<^item> \<open>award_token\<close> (lines 61--66): one \<^verbatim>\<open>INSERT\<close> into \<^verbatim>\<open>awarded_tokens\<close>; the
    timestamp column takes \<^verbatim>\<open>CURRENT_TIMESTAMP\<close>, the state's clock.
  \<^item> \<open>kill_stats_query\<close> (lines 90--94): \<^verbatim>\<open>SELECT user_id, ship_killed, pilot_killed,
    COUNT(*) FROM kills GROUP BY ...\<close>. The statement has no \<^verbatim>\<open>ORDER BY\<close>; SQLite's grouping
    sorter returns the groups in key order, which \<open>group_count\<close> follows. No property
    depends on that order: the handler's reply is stated in terms of \<open>group_count\<close>, and
    \<open>group_count_refines\<close> fixes the content of the groups, not their sequence.
\<close>

section \<open>Operations\<close>

definition init_db :: "('x bot_state_scheme, unit) py" where
  "init_db = py_modify (\<lambda>s. s\<lparr>awarded_tokens :=
     (case awarded_tokens s of None \<Rightarrow> Some [] | Some rows \<Rightarrow> Some rows)\<rparr>)"

definition award_token :: "int \<Rightarrow> interaction \<Rightarrow> string \<Rightarrow> ('x bot_state_scheme, unit) py" where
  "award_token uid i r = (\<lambda>s.
     case awarded_tokens s of
       None \<Rightarrow> (Inl (OperationalError ''no such table: awarded_tokens''), s)
     | Some rows \<Rightarrow>
         (Inr (), s\<lparr>awarded_tokens := Some (rows @
            [\<lparr>user_id = uid, awarded_by = inter_user_name i, reason = r, timestamp = clock s\<rparr>])\<rparr>))"

definition group_count :: "kill_row list \<Rightarrow> (kill_row \<times> nat) list" where
  "group_count rows = map (\<lambda>k. (k, count_list rows k)) (sort (remdups rows))"

definition kill_stats_query :: "('x bot_state_scheme, (kill_row \<times> nat) list) py" where
  "kill_stats_query = (\<lambda>s.
     case kills s of
       None \<Rightarrow> (Inl (OperationalError ''no such table: kills''), s)
     | Some rows \<Rightarrow> (Inr (group_count rows), s))"

section \<open>Lemmas\<close>

lemma init_db_apply [simp]:
  "init_db s = (Inr (), s\<lparr>awarded_tokens :=
     (case awarded_tokens s of None \<Rightarrow> Some [] | Some rows \<Rightarrow> Some rows)\<rparr>)"
  by (simp add: init_db_def)

lemma award_token_apply [simp]:
  "awarded_tokens s = Some rows \<Longrightarrow> award_token uid i r s =
     (Inr (), s\<lparr>awarded_tokens := Some (rows @
        [\<lparr>user_id = uid, awarded_by = inter_user_name i, reason = r, timestamp = clock s\<rparr>])\<rparr>)"
  by (simp add: award_token_def)

lemma award_token_no_table [simp]:
  "awarded_tokens s = None \<Longrightarrow>
     award_token uid i r s = (Inl (OperationalError ''no such table: awarded_tokens''), s)"
  by (simp add: award_token_def)

lemma kill_stats_query_apply [simp]:
  "kills s = Some rows \<Longrightarrow> kill_stats_query s = (Inr (group_count rows), s)"
  "kills s = None \<Longrightarrow> kill_stats_query s = (Inl (OperationalError ''no such table: kills''), s)"
  by (simp_all add: kill_stats_query_def)

lemma kill_stats_query_same_store [keeps_intros]: "py_keeps same_store kill_stats_query"
  by (auto simp: py_keeps_def same_store_def kill_stats_query_def split: option.splits)

lemma kill_stats_query_log_grows [keeps_intros]: "py_keeps log_grows kill_stats_query"
  by (auto simp: py_keeps_def log_grows_def kill_stats_query_def split: option.splits)

lemma kill_stats_query_balanced [keeps_intros]: "py_keeps browser_balanced kill_stats_query"
  by (auto simp: py_keeps_def browser_balanced_def new_effects_def kill_stats_query_def split: option.splits)

lemma map_of_map_pair:
  "map_of (map (\<lambda>k. (k, f k)) xs) k = (if k \<in> set xs then Some (f k) else None)"
  by (induction xs) auto

lemma group_count_keys: "map fst (group_count rows) = sort (remdups rows)"
  by (simp add: group_count_def comp_def)

section \<open>Properties\<close>

text \<open>C13: The grouped kill statistics refine the multiset of logged kills: the groups
  have distinct keys, and the count reported for a key is the number of rows with that
  key, no group being reported for a key without rows.\<close>

theorem group_count_refines:
  "distinct (map fst (group_count rows)) \<and>
   map_of (group_count rows) k = (if count (mset rows) k = 0 then None else Some (count (mset rows) k))"
proof
  show "distinct (map fst (group_count rows))" by (simp add: group_count_keys)
  show "map_of (group_count rows) k = (if count (mset rows) k = 0 then None else Some (count (mset rows) k))"
    by (simp add: group_count_def map_of_map_pair count_mset count_list_0_iff)
qed

text \<open>C19: Awarding the same token twice stores two rows, not one: \<^verbatim>\<open>award_token\<close> does
  not deduplicate. Both rows carry the clock's value as timestamp, so two awards within
  the clock's resolution have equal, not increasing, timestamps.\<close>

theorem award_token_twice:
  assumes "awarded_tokens s = Some rows"
  shows "py_seq (award_token uid i r) (award_token uid i r) s =
    (Inr (), s\<lparr>awarded_tokens := Some (rows @
       [\<lparr>user_id = uid, awarded_by = inter_user_name i, reason = r, timestamp = clock s\<rparr>,
        \<lparr>user_id = uid, awarded_by = inter_user_name i, reason = r, timestamp = clock s\<rparr>])\<rparr>)"
  using assms by simp

theorem award_token_twice_witness:
  "py_seq (award_token 7 \<lparr>inter_user_name = ''ann'', inter_user_id = 3\<rparr> ''ace'')
          (award_token 7 \<lparr>inter_user_name = ''ann'', inter_user_id = 3\<rparr> ''ace'')
      \<lparr>awarded_tokens = Some [], kills = None, clock = 5, response = NotResponded, effects = []\<rparr> =
    (Inr (), \<lparr>awarded_tokens = Some
       [\<lparr>user_id = 7, awarded_by = ''ann'', reason = ''ace'', timestamp = 5\<rparr>,
        \<lparr>user_id = 7, awarded_by = ''ann'', reason = ''ace'', timestamp = 5\<rparr>],
       kills = None, clock = 5, response = NotResponded, effects = []\<rparr>)"
  using award_token_twice [of "\<lparr>awarded_tokens = Some [], kills = None, clock = 5,
      response = NotResponded, effects = []\<rparr>" "[]" 7 "\<lparr>inter_user_name = ''ann'', inter_user_id = 3\<rparr>" "''ace''"]
  by simp

text \<open>C20: \<^verbatim>\<open>init_db\<close> is idempotent and never loses rows: it creates an empty
  \<^verbatim>\<open>awarded_tokens\<close> table when there is none, keeps an existing one as it is, and
  running it again changes nothing.\<close>

theorem init_db_idempotent:
  "awarded_tokens (snd (init_db s)) = (case awarded_tokens s of None \<Rightarrow> Some [] | Some rows \<Rightarrow> Some rows) \<and>
   init_db (snd (init_db s)) = (Inr (), snd (init_db s))"
  by (simp split: option.splits)

end
