(* ===== verification/Scraper.thy ===== *)
theory Scraper
  imports Platform
begin

text \<open>
  The profile scraper: the body of the \<^verbatim>\<open>/lookup\<close> command (lines 106--161). The
  browser is an oracle \<open>browser_env\<close>: whether \<^verbatim>\<open>webdriver.Chrome\<close> starts, and for each
  URL whether \<^verbatim>\<open>driver.get\<close> succeeds and what the two element waits find within their
  ten-second bound. The handler's local variable \<^verbatim>\<open>driver\<close> is part of the state: the
  frame \<open>lookup_frame\<close> extends \<open>bot_state\<close> by whether \<^verbatim>\<open>driver\<close> is bound, because the
  \<^verbatim>\<open>finally\<close> clause (line 161) reads it on every exit, also when line 118 never assigned
  it. \<open>lookup_body\<close> follows the source statement by statement: the \<^verbatim>\<open>defer\<close> before the
  \<^verbatim>\<open>try\<close>, the two per-field \<^verbatim>\<open>try/except\<close> blocks, the \<^verbatim>\<open>driver.quit()\<close> of line 145,
  the follow-up, the \<^verbatim>\<open>except Exception\<close> handler and the \<^verbatim>\<open>finally\<close>.

  The spec's contract (section 4.2) is the abstract \<open>lookup_profile_spec\<close>: no snapshot
  when the launch or the navigation fails, otherwise a snapshot whose fields are the
  stripped bio text or \<^verbatim>\<open>"Bio not found"\<close>, the avatar's \<^verbatim>\<open>src\<close> or
  \<^verbatim>\<open>"Avatar not found"\<close>, and the URL.
\<close>

section \<open>The browser oracle and the frame\<close>

text \<open>What the page at a URL offers: the text of the first element matching
  \<^verbatim>\<open>//div[@class='value' and not(strong)]\<close> and the \<^verbatim>\<open>src\<close> attribute of the first
  element of class \<^verbatim>\<open>profile-avatar\<close>; \<open>None\<close> when no such element is present within the
  wait, and \<open>Some None\<close> for an avatar element without \<^verbatim>\<open>src\<close>
  (\<^verbatim>\<open>get_attribute\<close> then returns \<^verbatim>\<open>None\<close>).\<close>

record page =
  bio_text :: "string option"
  avatar_src :: "string option option"

record browser_env =
  chrome_starts :: bool
  fetch :: "string \<Rightarrow> page option"

record lookup_frame = bot_state +
  driver_bound :: bool

section \<open>The handler\<close>

definition rsi_url :: "string \<Rightarrow> string" where
  "rsi_url h = ''https://robertsspaceindustries.com/citizens/'' @ h"

definition chrome_start :: "browser_env \<Rightarrow> (lookup_frame, unit) py" where
  "chrome_start w =
     (if chrome_starts w
      then py_modify (\<lambda>s. s\<lparr>effects := effects s @ [ChromeLaunch], driver_bound := True\<rparr>)
      else py_raise (WebDriverException ''Service chromedriver unexpectedly exited''))"

definition driver_get :: "browser_env \<Rightarrow> string \<Rightarrow> (lookup_frame, page) py" where
  "driver_get w url = py_seq (emit (ChromeGet url))
     (case fetch w url of
        None \<Rightarrow> py_raise (WebDriverException ''unknown error: net::ERR_CONNECTION_FAILED'')
      | Some pg \<Rightarrow> py_return pg)"

definition wait_bio :: "page \<Rightarrow> (lookup_frame, string) py" where
  "wait_bio pg = (case bio_text pg of None \<Rightarrow> py_raise TimeoutException | Some t \<Rightarrow> py_return t)"

definition wait_avatar :: "page \<Rightarrow> (lookup_frame, string option) py" where
  "wait_avatar pg = (case avatar_src pg of None \<Rightarrow> py_raise TimeoutException | Some a \<Rightarrow> py_return a)"

text \<open>An f-string prints an \<^verbatim>\<open>Optional[str]\<close> that is \<^verbatim>\<open>None\<close> as \<^verbatim>\<open>None\<close>.\<close>

definition py_str_opt :: "string option \<Rightarrow> string" where
  "py_str_opt a = (case a of None \<Rightarrow> ''None'' | Some t \<Rightarrow> t)"

definition driver_quit :: "(lookup_frame, unit) py" where
  "driver_quit = (\<lambda>s.
     if driver_bound s then emit ChromeQuit s else (Inl (UnboundLocalError ''driver''), s))"

definition profile_info :: "string \<Rightarrow> string \<Rightarrow> string \<Rightarrow> string \<Rightarrow> string" where
  "profile_info h bio avatar url =
     ''**RSI Handle:** '' @ h @ ''\<newline>Bio: '' @ bio @ ''\<newline>Avatar: '' @ avatar @
     ''\<newline>[Profile Link]('' @ url @ '')''"

definition lookup_error_msg :: string where
  "lookup_error_msg = ''An error occurred while fetching the profile. Please try again later.''"

definition lookup_body :: "browser_env \<Rightarrow> string \<Rightarrow> (lookup_frame, unit) py" where
  "lookup_body w h = py_seq response_defer
     (py_finally
       (py_try
         (py_seq (chrome_start w)
           (let url = rsi_url h in
            py_bind (driver_get w url) (\<lambda>pg.
            py_bind (py_try (py_map py_strip (wait_bio pg)) (\<lambda>_. py_return ''Bio not found'')) (\<lambda>bio.
            py_bind (py_try (py_map py_str_opt (wait_avatar pg)) (\<lambda>_. py_return ''Avatar not found'')) (\<lambda>avatar.
            py_seq driver_quit
              (followup_send (profile_info h bio avatar url)))))))
         (\<lambda>e. py_seq (log_error (''Error during lookup: '' @ exc_str e))
                (followup_send lookup_error_msg)))
       driver_quit)"

text \<open>The coroutine's frame starts with \<^verbatim>\<open>driver\<close> unbound and is dropped on return.\<close>

definition lookup :: "browser_env \<Rightarrow> string \<Rightarrow> (bot_state, unit) py" where
  "lookup w h = (\<lambda>s.
     case lookup_body w h (bot_state.extend s (lookup_frame.fields False)) of
       (r, f) \<Rightarrow> (r, bot_state.truncate f))"

section \<open>The spec's contract\<close>

record profile_snapshot =
  snap_handle :: string
  snap_bio :: string
  snap_avatar :: string
  snap_url :: string

definition bio_of :: "page \<Rightarrow> string" where
  "bio_of pg = (case bio_text pg of None \<Rightarrow> ''Bio not found'' | Some t \<Rightarrow> py_strip t)"

definition avatar_of :: "page \<Rightarrow> string" where
  "avatar_of pg = (case avatar_src pg of None \<Rightarrow> ''Avatar not found'' | Some a \<Rightarrow> py_str_opt a)"

definition lookup_profile_spec :: "browser_env \<Rightarrow> string \<Rightarrow> profile_snapshot option" where
  "lookup_profile_spec w h =
     (if \<not> chrome_starts w then None
      else case fetch w (rsi_url h) of
        None \<Rightarrow> None
      | Some pg \<Rightarrow> Some \<lparr>snap_handle = h, snap_bio = bio_of pg, snap_avatar = avatar_of pg,
                         snap_url = rsi_url h\<rparr>)"

definition format_snapshot :: "profile_snapshot \<Rightarrow> string" where
  "format_snapshot snap = profile_info (snap_handle snap) (snap_bio snap) (snap_avatar snap) (snap_url snap)"

text \<open>A concrete browser for the examples: Chrome starts and every URL serves a page
  whose bio and avatar are present.\<close>

abbreviation example_page :: page where
  "example_page \<equiv> \<lparr>bio_text = Some ''  Pilot of the Hull-C.\<newline>'', avatar_src = Some (Some ''https://cdn/a.png'')\<rparr>"

abbreviation example_browser :: browser_env where
  "example_browser \<equiv> \<lparr>chrome_starts = True, fetch = (\<lambda>_. Some example_page)\<rparr>"

section \<open>Lemmas\<close>

lemma bio_step: "py_try (py_map py_strip (wait_bio pg)) (\<lambda>_. py_return ''Bio not found'') = py_return (bio_of pg)"
  by (simp add: wait_bio_def bio_of_def fun_eq_iff py_try_def split: option.splits)

lemma avatar_step: "py_try (py_map py_str_opt (wait_avatar pg)) (\<lambda>_. py_return ''Avatar not found'') = py_return (avatar_of pg)"
  by (simp add: wait_avatar_def avatar_of_def fun_eq_iff py_try_def split: option.splits)

lemma lookup_error_msg_ok: "lookup_error_msg \<noteq> []" "length lookup_error_msg \<le> max_message_len"
  by (simp_all add: lookup_error_msg_def max_message_len_def)

lemma profile_info_nonempty: "profile_info h b a u \<noteq> []"
  by (simp add: profile_info_def)

lemma lookup_body_launch_fail:
  assumes "response f = NotResponded" "\<not> driver_bound f" "\<not> chrome_starts w"
  shows "lookup_body w h f = (Inl (UnboundLocalError ''driver''),
     f\<lparr>response := ResponseDeferred, effects := effects f @
       [DeferResponse, LogError (''Error during lookup: '' @ exc_str (WebDriverException ''Service chromedriver unexpectedly exited'')),
        FollowupSend lookup_error_msg]\<rparr>)"
  using assms by (simp add: lookup_body_def chrome_start_def driver_quit_def py_simps lookup_error_msg_ok Let_def)

lemma lookup_body_nav_fail:
  assumes "response f = NotResponded" "\<not> driver_bound f" "chrome_starts w" "fetch w (rsi_url h) = None"
  shows "lookup_body w h f = (Inr (),
     f\<lparr>response := ResponseDeferred, effects := effects f @
       [DeferResponse, ChromeLaunch, ChromeGet (rsi_url h),
        LogError (''Error during lookup: '' @ exc_str (WebDriverException ''unknown error: net::ERR_CONNECTION_FAILED'')),
        FollowupSend lookup_error_msg, ChromeQuit], driver_bound := True\<rparr>)"
  using assms by (simp add: lookup_body_def chrome_start_def driver_get_def driver_quit_def py_simps lookup_error_msg_ok Let_def)

lemma lookup_body_page:
  assumes "response f = NotResponded" "\<not> driver_bound f" "chrome_starts w" "fetch w (rsi_url h) = Some pg"
    "length (profile_info h (bio_of pg) (avatar_of pg) (rsi_url h)) \<le> max_message_len"
  shows "lookup_body w h f = (Inr (),
     f\<lparr>response := ResponseDeferred, effects := effects f @
       [DeferResponse, ChromeLaunch, ChromeGet (rsi_url h), ChromeQuit,
        FollowupSend (profile_info h (bio_of pg) (avatar_of pg) (rsi_url h)), ChromeQuit], driver_bound := True\<rparr>)"
  using assms by (simp add: lookup_body_def chrome_start_def driver_get_def driver_quit_def py_simps
      bio_step avatar_step Let_def profile_info_nonempty del: py_map_bind)

lemma lookup_body_page_long:
  assumes "response f = NotResponded" "\<not> driver_bound f" "chrome_starts w" "fetch w (rsi_url h) = Some pg"
    "max_message_len < length (profile_info h (bio_of pg) (avatar_of pg) (rsi_url h))"
  shows "lookup_body w h f = (Inr (),
     f\<lparr>response := ResponseDeferred, effects := effects f @
       [DeferResponse, ChromeLaunch, ChromeGet (rsi_url h), ChromeQuit,
        LogError (''Error during lookup: '' @ exc_str (HTTPException 400 ''Must be 2000 or fewer in length.'')),
        FollowupSend lookup_error_msg, ChromeQuit], driver_bound := True\<rparr>)"
  using assms by (simp add: lookup_body_def chrome_start_def driver_get_def driver_quit_def py_simps
      bio_step avatar_step Let_def lookup_error_msg_ok del: py_map_bind)


lemma lookup_launch_fail:
  assumes "response s = NotResponded" "\<not> chrome_starts w"
  shows "lookup w h s = (Inl (UnboundLocalError ''driver''),
     s\<lparr>response := ResponseDeferred, effects := effects s @
       [DeferResponse, LogError (''Error during lookup: '' @ exc_str (WebDriverException ''Service chromedriver unexpectedly exited'')),
        FollowupSend lookup_error_msg]\<rparr>)"
  using assms by (simp add: lookup_def lookup_body_launch_fail bot_state.defs lookup_frame.defs)

lemma lookup_nav_fail:
  assumes "response s = NotResponded" "chrome_starts w" "fetch w (rsi_url h) = None"
  shows "lookup w h s = (Inr (),
     s\<lparr>response := ResponseDeferred, effects := effects s @
       [DeferResponse, ChromeLaunch, ChromeGet (rsi_url h),
        LogError (''Error during lookup: '' @ exc_str (WebDriverException ''unknown error: net::ERR_CONNECTION_FAILED'')),
        FollowupSend lookup_error_msg, ChromeQuit]\<rparr>)"
  using assms by (simp add: lookup_def lookup_body_nav_fail bot_state.defs lookup_frame.defs)

lemma lookup_page:
  assumes "response s = NotResponded" "chrome_starts w" "fetch w (rsi_url h) = Some pg"
    "length (profile_info h (bio_of pg) (avatar_of pg) (rsi_url h)) \<le> max_message_len"
  shows "lookup w h s = (Inr (),
     s\<lparr>response := ResponseDeferred, effects := effects s @
       [DeferResponse, ChromeLaunch, ChromeGet (rsi_url h), ChromeQuit,
        FollowupSend (profile_info h (bio_of pg) (avatar_of pg) (rsi_url h)), ChromeQuit]\<rparr>)"
  using assms by (simp add: lookup_def lookup_body_page bot_state.defs lookup_frame.defs)

lemma lookup_page_long:
  assumes "response s = NotResponded" "chrome_starts w" "fetch w (rsi_url h) = Some pg"
    "max_message_len < length (profile_info h (bio_of pg) (avatar_of pg) (rsi_url h))"
  shows "lookup w h s = (Inr (),
     s\<lparr>response := ResponseDeferred, effects := effects s @
       [DeferResponse, ChromeLaunch, ChromeGet (rsi_url h), ChromeQuit,
        LogError (''Error during lookup: '' @ exc_str (HTTPException 400 ''Must be 2000 or fewer in length.'')),
        FollowupSend lookup_error_msg, ChromeQuit]\<rparr>)"
  using assms by (simp add: lookup_def lookup_body_page_long bot_state.defs lookup_frame.defs)

lemma lookup_fetched:
  assumes "response s = NotResponded" "chrome_starts w" "fetch w (rsi_url h) = Some pg"
  shows "lookup w h s = (Inr (),
     s\<lparr>response := ResponseDeferred, effects := effects s @
       [DeferResponse, ChromeLaunch, ChromeGet (rsi_url h), ChromeQuit] @
       (if length (profile_info h (bio_of pg) (avatar_of pg) (rsi_url h)) \<le> max_message_len
        then [FollowupSend (profile_info h (bio_of pg) (avatar_of pg) (rsi_url h))]
        else [LogError (''Error during lookup: '' @ exc_str (HTTPException 400 ''Must be 2000 or fewer in length.'')),
              FollowupSend lookup_error_msg]) @ [ChromeQuit]\<rparr>)"
  using assms lookup_page [OF assms] lookup_page_long [OF assms] by (simp add: not_le)

lemmas lookup_cases = lookup_launch_fail lookup_nav_fail lookup_fetched

lemma driver_quit_keeps [keeps_intros]:
  "py_keeps same_store driver_quit" "py_keeps log_grows driver_quit"
  by (auto simp: py_keeps_def driver_quit_def same_store_def log_grows_def)

lemma frame_ops_keeps [keeps_intros]:
  "py_keeps same_store (chrome_start w)" "py_keeps log_grows (chrome_start w)"
  by (auto simp: chrome_start_def same_store_def log_grows_def intro!: keeps_intros)

lemma lookup_body_keeps:
  "py_keeps same_store (lookup_body w h)" "py_keeps log_grows (lookup_body w h)"
  unfolding lookup_body_def driver_get_def wait_bio_def wait_avatar_def Let_def
  by (intro keeps_intros; simp)+

lemma truncate_fields [simp]:
  "awarded_tokens (bot_state.truncate f) = awarded_tokens f"
  "kills (bot_state.truncate f) = kills f"
  "clock (bot_state.truncate f) = clock f"
  "response (bot_state.truncate f) = response f"
  "effects (bot_state.truncate f) = effects f"
  by (simp_all add: bot_state.defs)

lemma extend_fields [simp]:
  "awarded_tokens (bot_state.extend s x) = awarded_tokens s"
  "kills (bot_state.extend s x) = kills s"
  "clock (bot_state.extend s x) = clock s"
  "response (bot_state.extend s x) = response s"
  "effects (bot_state.extend s x) = effects s"
  by (simp_all add: bot_state.defs)

lemma lookup_transfer:
  assumes "py_keeps R (lookup_body w h)"
    and "\<And>s f. R (bot_state.extend s (lookup_frame.fields False)) f \<Longrightarrow> R' s (bot_state.truncate f)"
  shows "py_keeps R' (lookup w h)"
  unfolding py_keeps_def
proof
  fix s
  obtain r f where b: "lookup_body w h (bot_state.extend s (lookup_frame.fields False)) = (r, f)"
    by fastforce
  from assms(1) b have "R (bot_state.extend s (lookup_frame.fields False)) f" by (rule py_keepsD)
  then show "R' s (snd (lookup w h s))" using assms(2) b by (simp add: lookup_def)
qed

lemma lookup_keeps [keeps_intros]:
  "py_keeps same_store (lookup w h)" "py_keeps log_grows (lookup w h)"
  by (rule lookup_transfer [OF lookup_body_keeps(1)], simp add: same_store_def)
     (rule lookup_transfer [OF lookup_body_keeps(2)], simp add: log_grows_def)

lemma lookup_outcome:
  assumes "response s = NotResponded" "lookup w h s = (r, s')"
  shows "r \<noteq> Inl InteractionResponded \<and> response s' = ResponseDeferred"
  using assms
  by (cases "chrome_starts w"; cases "fetch w (rsi_url h)") (auto simp: lookup_cases)

lemma lookup_responded:
  "response s \<noteq> NotResponded \<Longrightarrow> lookup w h s = (Inl InteractionResponded, s)"
  by (simp add: lookup_def lookup_body_def response_defer_def py_simps bot_state.defs lookup_frame.defs)

lemma lookup_balanced [keeps_intros]: "py_keeps browser_balanced (lookup w h)"
  unfolding py_keeps_def
proof
  fix s
  show "browser_balanced s (snd (lookup w h s))"
  proof (cases "response s = NotResponded")
    case True
    then show ?thesis
      by (cases "chrome_starts w"; cases "fetch w (rsi_url h)") (auto simp: lookup_cases browser_balanced_append)
  next
    case False
    then show ?thesis by (simp add: lookup_responded browser_balanced_def new_effects_def)
  qed
qed

section \<open>Properties\<close>

text \<open>C3: \<^verbatim>\<open>/lookup\<close> implements the spec's \<^verbatim>\<open>lookupProfile\<close> contract as far as the
  user sees it: the interaction gets exactly one follow-up, which is the formatted
  snapshot when the launch and the navigation succeed and the snapshot fits in one
  message, and the generic failure message otherwise (also when the scrape succeeded
  but the formatted profile is longer than the platform's 2000-character limit).\<close>

theorem lookup_refines_spec:
  assumes "response s = NotResponded"
  shows "followups (new_effects s (snd (lookup w h s))) =
    [case lookup_profile_spec w h of
       None \<Rightarrow> lookup_error_msg
     | Some snap \<Rightarrow> if length (format_snapshot snap) \<le> max_message_len then format_snapshot snap
                    else lookup_error_msg]"
  using assms
  by (cases "chrome_starts w"; cases "fetch w (rsi_url h)")
     (auto simp: lookup_cases lookup_profile_spec_def format_snapshot_def not_le)

theorem lookup_refines_spec_witness:
  "response fresh_state = NotResponded \<and>
   followups (new_effects fresh_state (snd (lookup example_browser ''Osiris'' fresh_state))) =
    [case lookup_profile_spec example_browser ''Osiris'' of
       None \<Rightarrow> lookup_error_msg
     | Some snap \<Rightarrow> if length (format_snapshot snap) \<le> max_message_len then format_snapshot snap
                    else lookup_error_msg]"
  using lookup_refines_spec [of fresh_state example_browser "''Osiris''"] by simp

text \<open>C5: Teardown is not exactly once, as the spec (section 4.2) requires: whenever the
  page loads, \<^verbatim>\<open>driver.quit()\<close> runs twice, once at line 145 and again in the
  \<^verbatim>\<open>finally\<close> clause at line 161, for the single browser launched.\<close>

theorem lookup_quits_twice:
  assumes "response s = NotResponded" "chrome_starts w" "fetch w (rsi_url h) = Some pg"
  shows "count_list (new_effects s (snd (lookup w h s))) ChromeLaunch = 1 \<and>
         count_list (new_effects s (snd (lookup w h s))) ChromeQuit = 2"
  using assms by (simp add: lookup_fetched)

theorem lookup_quits_twice_witness:
  "count_list (new_effects fresh_state (snd (lookup example_browser ''Osiris'' fresh_state))) ChromeLaunch = 1 \<and>
   count_list (new_effects fresh_state (snd (lookup example_browser ''Osiris'' fresh_state))) ChromeQuit = 2"
  using lookup_quits_twice [of fresh_state example_browser "''Osiris''" example_page] by simp

text \<open>C6: When Chrome fails to start, the user still gets the generic failure message, but
  the \<^verbatim>\<open>finally\<close> clause then reads the unbound local \<^verbatim>\<open>driver\<close>: the handler raises
  \<^verbatim>\<open>UnboundLocalError\<close> instead of returning, and no browser is quit because none
  was started.\<close>

theorem lookup_launch_failure:
  assumes "response s = NotResponded" "\<not> chrome_starts w"
  shows "fst (lookup w h s) = Inl (UnboundLocalError ''driver'') \<and>
         followups (new_effects s (snd (lookup w h s))) = [lookup_error_msg] \<and>
         ChromeQuit \<notin> set (new_effects s (snd (lookup w h s)))"
  using assms by (simp add: lookup_launch_fail)

theorem lookup_launch_failure_witness:
  "fst (lookup (example_browser\<lparr>chrome_starts := False\<rparr>) ''Osiris'' fresh_state) = Inl (UnboundLocalError ''driver'') \<and>
   followups (new_effects fresh_state (snd (lookup (example_browser\<lparr>chrome_starts := False\<rparr>) ''Osiris'' fresh_state))) = [lookup_error_msg] \<and>
   ChromeQuit \<notin> set (new_effects fresh_state (snd (lookup (example_browser\<lparr>chrome_starts := False\<rparr>) ''Osiris'' fresh_state)))"
  using lookup_launch_failure [of fresh_state "example_browser\<lparr>chrome_starts := False\<rparr>" "''Osiris''"] by simp

text \<open>C15: When navigation fails after a successful launch, the handler logs the error,
  sends the generic failure message, returns normally, and quits the browser exactly
  once (in the \<^verbatim>\<open>finally\<close> clause).\<close>

theorem lookup_navigation_failure:
  assumes "response s = NotResponded" "chrome_starts w" "fetch w (rsi_url h) = None"
  shows "fst (lookup w h s) = Inr () \<and>
         followups (new_effects s (snd (lookup w h s))) = [lookup_error_msg] \<and>
         count_list (new_effects s (snd (lookup w h s))) ChromeQuit = 1"
  using assms by (simp add: lookup_nav_fail)

theorem lookup_navigation_failure_witness:
  "fst (lookup (example_browser\<lparr>fetch := (\<lambda>_. None)\<rparr>) ''Osiris'' fresh_state) = Inr () \<and>
   followups (new_effects fresh_state (snd (lookup (example_browser\<lparr>fetch := (\<lambda>_. None)\<rparr>) ''Osiris'' fresh_state))) = [lookup_error_msg] \<and>
   count_list (new_effects fresh_state (snd (lookup (example_browser\<lparr>fetch := (\<lambda>_. None)\<rparr>) ''Osiris'' fresh_state))) ChromeQuit = 1"
  using lookup_navigation_failure [of fresh_state "example_browser\<lparr>fetch := (\<lambda>_. None)\<rparr>" "''Osiris''"] by simp

text \<open>C16: When neither element appears within the wait, the lookup does not fail: it
  returns normally and replies with the placeholders \<^verbatim>\<open>Bio not found\<close> and
  \<^verbatim>\<open>Avatar not found\<close> (for any handle short enough for the reply to fit).\<close>

theorem lookup_placeholders:
  assumes "response s = NotResponded" "chrome_starts w" "fetch w (rsi_url h) = Some pg"
    "bio_text pg = None" "avatar_src pg = None" "length h \<le> 900"
  shows "fst (lookup w h s) = Inr () \<and>
         followups (new_effects s (snd (lookup w h s))) =
           [profile_info h ''Bio not found'' ''Avatar not found'' (rsi_url h)]"
  using assms by (simp add: lookup_fetched bio_of_def avatar_of_def profile_info_def rsi_url_def max_message_len_def)

theorem lookup_placeholders_witness:
  "fst (lookup (example_browser\<lparr>fetch := (\<lambda>_. Some \<lparr>bio_text = None, avatar_src = None\<rparr>)\<rparr>) ''Osiris'' fresh_state) = Inr () \<and>
   followups (new_effects fresh_state (snd (lookup (example_browser\<lparr>fetch := (\<lambda>_. Some \<lparr>bio_text = None, avatar_src = None\<rparr>)\<rparr>) ''Osiris'' fresh_state))) =
     [profile_info ''Osiris'' ''Bio not found'' ''Avatar not found'' (rsi_url ''Osiris'')]"
  using lookup_placeholders [of fresh_state "example_browser\<lparr>fetch := (\<lambda>_. Some \<lparr>bio_text = None, avatar_src = None\<rparr>)\<rparr>"
      "''Osiris''" "\<lparr>bio_text = None, avatar_src = None\<rparr>"] by simp

text \<open>C17: The bio \<^verbatim>\<open>/lookup\<close> reports for a present bio element is the element's
  text with the surrounding whitespace removed, and nothing else: the reply's bio is a
  piece of the text with only whitespace before and after it, and it neither starts nor
  ends with whitespace.\<close>

theorem lookup_reports_stripped_bio:
  assumes "response s = NotResponded" "chrome_starts w" "fetch w (rsi_url h) = Some pg"
    "bio_text pg = Some t" "length (profile_info h (py_strip t) (avatar_of pg) (rsi_url h)) \<le> max_message_len"
  shows "\<exists>a b c. followups (new_effects s (snd (lookup w h s))) = [profile_info h b (avatar_of pg) (rsi_url h)] \<and>
           t = a @ b @ c \<and> list_all py_isspace a \<and> list_all py_isspace c \<and>
           takeWhile py_isspace b = [] \<and> takeWhile py_isspace (rev b) = []"
proof -
  have bio: "bio_of pg = py_strip t" using assms(4) by (simp add: bio_of_def)
  let ?a = "takeWhile py_isspace t"
  let ?c = "rev (takeWhile py_isspace (rev (dropWhile py_isspace t)))"
  have "followups (new_effects s (snd (lookup w h s))) = [profile_info h (py_strip t) (avatar_of pg) (rsi_url h)]"
    using assms bio by (simp add: lookup_page)
  moreover have "t = ?a @ py_strip t @ ?c" by (rule py_strip_decomp)
  moreover have "list_all py_isspace ?a" "list_all py_isspace ?c"
    by (auto simp: list_all_iff dest: set_takeWhileD)
  ultimately show ?thesis using py_strip_trimmed by blast
qed

theorem lookup_reports_stripped_bio_witness:
  "\<exists>a b c. followups (new_effects fresh_state (snd (lookup example_browser ''Osiris'' fresh_state))) =
       [profile_info ''Osiris'' b (avatar_of example_page) (rsi_url ''Osiris'')] \<and>
     ''  Pilot of the Hull-C.\<newline>'' = a @ b @ c \<and> list_all py_isspace a \<and> list_all py_isspace c \<and>
     takeWhile py_isspace b = [] \<and> takeWhile py_isspace (rev b) = []"
proof -
  have "length (profile_info ''Osiris'' (py_strip ''  Pilot of the Hull-C.\<newline>'') (avatar_of example_page)
      (rsi_url ''Osiris'')) \<le> max_message_len"
    by (simp add: profile_info_def rsi_url_def max_message_len_def py_strip_def py_isspace_def
        avatar_of_def py_str_opt_def)
  then show ?thesis
    using lookup_reports_stripped_bio [of fresh_state example_browser "''Osiris''" example_page
        "''  Pilot of the Hull-C.\<newline>''"] by simp
qed

end
