(* ===== verification/Commands.thy ===== *)
theory Commands
  imports Store Scraper
begin

text \<open>
  The command dispatcher: the handlers registered on the command tree and the
  \<^verbatim>\<open>on_ready\<close> event handler.
  \<^item> \<open>hello\<close> (lines 55--57) replies with a greeting.
  \<^item> \<open>logkill_with\<close> (lines 70--84) is the handler of the command registered as
    \<^verbatim>\<open>award_token\<close>: it checks that both strings are non-empty, calls \<^verbatim>\<open>log_kill\<close> and
    replies. \<^verbatim>\<open>log_kill\<close> is a module-level name that the module never defines, so the
    call is resolved through the module's globals, an interface \<open>kill_logger option\<close>:
    \<open>module_log_kill\<close> is the source's (no such name, \<^verbatim>\<open>NameError\<close>).
    \<open>logkill\<close> is the handler as the source runs it; what holds of every binding is
    stated over \<open>logkill_with\<close>.
  \<^item> \<open>killstats\<close> (lines 88--102) queries the grouped statistics and replies with one
    block per group, built by the \<^verbatim>\<open>for\<close> loop \<open>stats_loop\<close>, or with
    \<^verbatim>\<open>No kill data available.\<close>.
  \<^item> \<open>dispatch\<close> maps each registered command (by its registered name) to its handler;
    \<^verbatim>\<open>lookup\<close> is the scraper of \<open>Scraper\<close>.
  \<^item> \<open>on_ready\<close> (lines 31--38) logs the login and the result of syncing the command tree.
\<close>

section \<open>Handlers\<close>

definition hello :: "interaction \<Rightarrow> (bot_state, unit) py" where
  "hello i = send_message (''Hello, '' @ inter_user_name i @ ''!'')"

type_synonym kill_logger = "int \<Rightarrow> string \<Rightarrow> string \<Rightarrow> (bot_state, unit) py"

text \<open>The module's globals bind no \<^verbatim>\<open>log_kill\<close> (line 81 calls an undefined name).\<close>

definition module_log_kill :: "kill_logger option" where
  "module_log_kill = None"

definition call_log_kill :: "kill_logger option \<Rightarrow> kill_logger" where
  "call_log_kill g = (case g of None \<Rightarrow> (\<lambda>_ _ _. py_raise (NameError ''log_kill'')) | Some f \<Rightarrow> f)"

definition required_msg :: string where
  "required_msg = ''Both '' @ apos # ''ship_killed'' @ apos # '' and '' @ apos # ''pilot_killed'' @ apos #
     '' are required.''"

definition kill_logged_msg :: "interaction \<Rightarrow> string \<Rightarrow> string \<Rightarrow> string" where
  "kill_logged_msg i ship pilot =
     ''Kill logged: '' @ inter_user_name i @ '' killed '' @ pilot @ '' in their '' @ ship @ ''.''"

definition logkill_with :: "kill_logger option \<Rightarrow> interaction \<Rightarrow> string \<Rightarrow> string \<Rightarrow> (bot_state, unit) py" where
  "logkill_with g i ship pilot =
     (if ship = [] \<or> pilot = [] then send_message required_msg
      else py_seq (call_log_kill g (inter_user_id i) ship pilot)
             (send_message (kill_logged_msg i ship pilot)))"

definition logkill :: "interaction \<Rightarrow> string \<Rightarrow> string \<Rightarrow> (bot_state, unit) py" where
  "logkill = logkill_with module_log_kill"

definition format_stat :: "kill_row \<times> nat \<Rightarrow> string" where
  "format_stat st = (case st of ((uid, ship, pilot), n) \<Rightarrow>
     ''User ID: '' @ py_str_int uid @ ''\<newline>  Ship: '' @ ship @ ''\<newline>  Pilot: '' @ pilot @
     ''\<newline>  Kills: '' @ py_str_int (int n) @ ''\<newline>\<newline>'')"

fun stats_loop :: "string \<Rightarrow> (kill_row \<times> nat) list \<Rightarrow> string" where
  "stats_loop acc [] = acc"
| "stats_loop acc (st # sts) = stats_loop (acc @ format_stat st) sts"

definition stats_header :: string where
  "stats_header = ''Kill Stats:\<newline>''"

definition no_data_msg :: string where
  "no_data_msg = ''No kill data available.''"

definition killstats :: "interaction \<Rightarrow> (bot_state, unit) py" where
  "killstats i = py_bind kill_stats_query (\<lambda>stats.
     if stats \<noteq> [] then send_message (stats_loop stats_header stats)
     else send_message no_data_msg)"

section \<open>Dispatch\<close>

text \<open>The commands of the tree, named by the name they are registered under.\<close>

datatype command =
    Hello
  | AwardToken string string   \<comment> \<open>\<^verbatim>\<open>ship_killed\<close>, \<^verbatim>\<open>pilot_killed\<close>\<close>
  | KillStats
  | Lookup string              \<comment> \<open>\<^verbatim>\<open>rsi_handle\<close>\<close>

fun command_name :: "command \<Rightarrow> string" where
  "command_name Hello = ''hello''"
| "command_name (AwardToken _ _) = ''award_token''"
| "command_name KillStats = ''killstats''"
| "command_name (Lookup _) = ''lookup''"

fun dispatch :: "browser_env \<Rightarrow> interaction \<Rightarrow> command \<Rightarrow> (bot_state, unit) py" where
  "dispatch w i Hello = hello i"
| "dispatch w i (AwardToken ship pilot) = logkill i ship pilot"
| "dispatch w i KillStats = killstats i"
| "dispatch w i (Lookup h) = lookup w h"

text \<open>\<^verbatim>\<open>on_ready\<close>: the sync either returns the synced commands (their number) or raises.\<close>

definition on_ready :: "string \<Rightarrow> exc + nat \<Rightarrow> (bot_state, unit) py" where
  "on_ready bot_user sync = py_seq (log_info (''Logged in as '' @ bot_user))
     (py_try
       (case sync of
          Inl e \<Rightarrow> py_raise e
        | Inr n \<Rightarrow> log_info (''Synced '' @ py_str_int (int n) @ '' command(s).''))
       (\<lambda>e. log_error (''Failed to sync commands: '' @ exc_str e)))"

section \<open>Lemmas\<close>

lemma required_msg_ok: "required_msg \<noteq> []" "length required_msg \<le> max_message_len"
  by (simp_all add: required_msg_def max_message_len_def)

lemma no_data_msg_ok: "no_data_msg \<noteq> []" "length no_data_msg \<le> max_message_len"
  by (simp_all add: no_data_msg_def max_message_len_def)

lemma stats_loop_concat: "stats_loop acc sts = acc @ concat (map format_stat sts)"
  by (induction acc sts rule: stats_loop.induct) simp_all

lemma py_str_int_nonempty: "py_str_int i \<noteq> []"
  by (simp add: py_str_int_def nat_digits_nonempty)

lemma format_stat_length: "42 \<le> length (format_stat st)"
proof -
  obtain uid ship pilot n where st: "st = ((uid, ship, pilot), n)" by (cases st) auto
  have "1 \<le> length (py_str_int uid)" "1 \<le> length (py_str_int (int n))"
    using py_str_int_nonempty by (simp_all add: Suc_le_eq)
  then show ?thesis by (simp add: st format_stat_def)
qed

lemma concat_format_length: "42 * length sts \<le> length (concat (map format_stat sts))"
proof (induction sts)
  case Nil
  then show ?case by simp
next
  case (Cons st sts)
  then show ?case using format_stat_length[of st] by simp
qed

lemma length_group_count: "length (group_count rows) = card (set rows)"
  by (simp add: group_count_def length_remdups_card_conv)

lemma group_count_Nil: "group_count rows = [] \<longleftrightarrow> rows = []"
proof -
  have "length (group_count rows) = length (remdups rows)" by (simp add: group_count_def)
  then show ?thesis by (metis length_0_conv remdups_eq_nil_iff)
qed

lemmas handler_defs = hello_def logkill_def logkill_with_def call_log_kill_def module_log_kill_def killstats_def

lemma dispatch_keeps:
  "py_keeps same_store (dispatch w i c)" "py_keeps log_grows (dispatch w i c)"
  "py_keeps browser_balanced (dispatch w i c)"
  by (cases c; auto simp: handler_defs intro!: keeps_intros)+


lemma on_ready_keeps:
  "py_keeps same_store (on_ready u r)" "py_keeps log_grows (on_ready u r)"
  "py_keeps browser_balanced (on_ready u r)"
  unfolding on_ready_def by (intro keeps_intros; simp)+

section \<open>Properties\<close>

text \<open>C1: The command registered as \<^verbatim>\<open>award_token\<close> never logs a kill: for every
  valid pair of non-empty ship and pilot names it raises \<^verbatim>\<open>NameError\<close> for the
  undefined \<^verbatim>\<open>log_kill\<close> before inserting anything or replying, so the state is left
  exactly as it was.\<close>

theorem logkill_name_error:
  assumes "ship \<noteq> []" "pilot \<noteq> []"
  shows "logkill i ship pilot s = (Inl (NameError ''log_kill''), s)"
  using assms by (simp add: logkill_def logkill_with_def module_log_kill_def call_log_kill_def)

theorem logkill_name_error_witness:
  "logkill example_user ''Cutlass'' ''Vex'' fresh_state = (Inl (NameError ''log_kill''), fresh_state)"
  using logkill_name_error [of "''Cutlass''" "''Vex''" example_user fresh_state] by simp

text \<open>C9: When the ship or the pilot name is empty, the handler replies with the
  required-fields message and persists nothing, whatever \<^verbatim>\<open>log_kill\<close> is bound to.\<close>

theorem logkill_missing_field:
  assumes "ship = [] \<or> pilot = []" "response s = NotResponded"
  shows "logkill_with g i ship pilot s =
     (Inr (), s\<lparr>response := Responded, effects := effects s @ [SendMessage required_msg]\<rparr>)"
  using assms by (auto simp: logkill_with_def required_msg_ok)

theorem logkill_missing_field_witness:
  "logkill_with module_log_kill example_user [] ''Vex'' fresh_state =
     (Inr (), fresh_state\<lparr>response := Responded, effects := [SendMessage required_msg]\<rparr>)"
  using logkill_missing_field [of "[]" "''Vex''" fresh_state module_log_kill example_user] by simp

text \<open>C10: \<^verbatim>\<open>/killstats\<close> on an empty \<^verbatim>\<open>kills\<close> table replies
  \<^verbatim>\<open>No kill data available.\<close> and builds no statistics block.\<close>

theorem killstats_empty:
  assumes "kills s = Some []" "response s = NotResponded"
  shows "killstats i s = (Inr (), s\<lparr>response := Responded, effects := effects s @ [SendMessage no_data_msg]\<rparr>)"
  using assms by (simp add: killstats_def group_count_def no_data_msg_ok)

theorem killstats_empty_witness:
  "killstats example_user fresh_state =
     (Inr (), fresh_state\<lparr>response := Responded, effects := [SendMessage no_data_msg]\<rparr>)"
  using killstats_empty [of fresh_state example_user] by simp

text \<open>C11: \<^verbatim>\<open>/killstats\<close> on a non-empty table replies with the header followed by one
  block per group of the query, in the query's order: the \<^verbatim>\<open>for\<close> loop's accumulation
  equals the concatenation of the formatted groups.\<close>

theorem killstats_reply:
  assumes "kills s = Some rows" "rows \<noteq> []" "response s = NotResponded"
    "length (stats_header @ concat (map format_stat (group_count rows))) \<le> max_message_len"
  shows "killstats i s = (Inr (), s\<lparr>response := Responded, effects := effects s @
           [SendMessage (stats_header @ concat (map format_stat (group_count rows)))]\<rparr>)"
proof -
  have "group_count rows \<noteq> []" using assms(2) by (simp add: group_count_Nil)
  then show ?thesis using assms by (simp add: killstats_def stats_loop_concat stats_header_def)
qed

theorem killstats_reply_witness:
  "killstats example_user (fresh_state\<lparr>kills := Some [(7, ''Aurora'', ''Vex'')]\<rparr>) =
     (Inr (), fresh_state\<lparr>kills := Some [(7, ''Aurora'', ''Vex'')], response := Responded,
        effects := [SendMessage (stats_header @ concat (map format_stat (group_count [(7, ''Aurora'', ''Vex'')])))]\<rparr>)"
proof -
  have len: "length (stats_header @ concat (map format_stat (group_count [(7::int, ''Aurora'', ''Vex'')])))
      \<le> max_message_len"
    by code_simp
  show ?thesis
    using killstats_reply [of "fresh_state\<lparr>kills := Some [(7, ''Aurora'', ''Vex'')]\<rparr>" "[(7, ''Aurora'', ''Vex'')]"
        example_user] len by simp
qed

text \<open>C14: \<^verbatim>\<open>/killstats\<close> fails when the \<^verbatim>\<open>kills\<close> table does not exist, which is the
  case in every deployment since no code of the bot creates it: the query raises
  \<^verbatim>\<open>OperationalError\<close> and no reply is sent.\<close>

theorem killstats_no_table:
  assumes "kills s = None"
  shows "killstats i s = (Inl (OperationalError ''no such table: kills''), s)"
  using assms by (simp add: killstats_def)

theorem killstats_no_table_witness:
  "killstats example_user (fresh_state\<lparr>kills := None\<rparr>) =
     (Inl (OperationalError ''no such table: kills''), fresh_state\<lparr>kills := None\<rparr>)"
  using killstats_no_table [of "fresh_state\<lparr>kills := None\<rparr>" example_user] by simp

text \<open>C12: Every group adds at least 42 characters to the reply, so once the table holds
  48 distinct (user, ship, pilot) keys the reply exceeds the platform's 2000-character
  limit and \<^verbatim>\<open>/killstats\<close> fails with \<^verbatim>\<open>HTTPException\<close>, for every content of the rows.\<close>

theorem killstats_too_many_groups:
  assumes "kills s = Some rows" "48 \<le> card (set rows)" "response s = NotResponded"
  shows "killstats i s = (Inl (HTTPException 400 ''Must be 2000 or fewer in length.''), s)"
proof -
  have "48 \<le> length (group_count rows)" using assms(2) by (simp add: length_group_count)
  then have "42 * 48 \<le> length (concat (map format_stat (group_count rows)))"
    using concat_format_length[of "group_count rows"] by linarith
  then have "max_message_len < length (stats_loop stats_header (group_count rows))"
    by (simp add: stats_loop_concat max_message_len_def)
  moreover have "group_count rows \<noteq> []"
    using \<open>48 \<le> length (group_count rows)\<close> by (auto simp del: group_count_Nil)
  ultimately show ?thesis using assms by (simp add: killstats_def)
qed

theorem killstats_too_many_groups_witness:
  "killstats example_user (fresh_state\<lparr>kills := Some (map (\<lambda>n. (int n, ''S'', ''P'')) [0..<48])\<rparr>) =
     (Inl (HTTPException 400 ''Must be 2000 or fewer in length.''),
      fresh_state\<lparr>kills := Some (map (\<lambda>n. (int n, ''S'', ''P'')) [0..<48])\<rparr>)"
proof -
  have "distinct (map (\<lambda>n. (int n, ''S'', ''P'')) [0..<48])"
    by (simp only: distinct_map distinct_upt) (simp add: inj_on_def)
  then have card: "card (set (map (\<lambda>n. (int n, ''S'', ''P'')) [0..<48])) = 48"
    by (simp only: distinct_card length_map length_upt)
  show ?thesis
    using killstats_too_many_groups [of "fresh_state\<lparr>kills := Some (map (\<lambda>n. (int n, ''S'', ''P'')) [0..<48])\<rparr>"
        "map (\<lambda>n. (int n, ''S'', ''P'')) [0..<48]" example_user] card
    by (simp only: bot_state.simps)
qed

text \<open>C7: Every command, started on a fresh interaction, responds at most once: it never
  raises \<^verbatim>\<open>InteractionResponded\<close>, and when it returns normally it has given its
  initial response (a message or a deferral).\<close>

theorem dispatch_responds_once:
  assumes "response s = NotResponded" "dispatch w i c s = (r, s')"
  shows "r \<noteq> Inl InteractionResponded \<and> (r = Inr () \<longrightarrow> response s' \<noteq> NotResponded)"
proof (cases c)
  case Hello
  with assms show ?thesis by (auto simp: hello_def dest: send_message_outcome)
next
  case (AwardToken ship pilot)
  with assms show ?thesis
    by (auto simp: logkill_def logkill_with_def call_log_kill_def module_log_kill_def
        dest: send_message_outcome split: if_splits)
next
  case KillStats
  with assms show ?thesis
    by (cases "kills s") (auto simp: killstats_def dest: send_message_outcome split: if_splits)
next
  case (Lookup h)
  with assms show ?thesis by (auto dest: lookup_outcome)
qed

theorem dispatch_responds_once_witness:
  "fst (dispatch example_browser example_user Hello fresh_state) \<noteq> Inl InteractionResponded \<and>
   response (snd (dispatch example_browser example_user Hello fresh_state)) \<noteq> NotResponded"
proof -
  have ok: "fst (dispatch example_browser example_user Hello fresh_state) = Inr ()"
    by (simp add: hello_def max_message_len_def)
  show ?thesis
    using dispatch_responds_once [of fresh_state example_browser example_user Hello
      "fst (dispatch example_browser example_user Hello fresh_state)"
      "snd (dispatch example_browser example_user Hello fresh_state)"] ok by simp
qed

text \<open>C21: \<^verbatim>\<open>on_ready\<close> never raises: it logs the login and then either the number of
  synced commands or, when the sync raises, the error, and touches nothing else.\<close>

theorem on_ready_logs:
  "on_ready u r s = (Inr (), s\<lparr>effects := effects s @
     [LogInfo (''Logged in as '' @ u),
      case r of Inl e \<Rightarrow> LogError (''Failed to sync commands: '' @ exc_str e)
              | Inr n \<Rightarrow> LogInfo (''Synced '' @ py_str_int (int n) @ '' command(s).'')]\<rparr>)"
  by (cases r) (simp_all add: on_ready_def)

text \<open>C22: \<^verbatim>\<open>/hello\<close> greets the invoking user by name as its one response.\<close>

theorem hello_reply:
  assumes "response s = NotResponded" "length (inter_user_name i) \<le> 1992"
  shows "hello i s = (Inr (), s\<lparr>response := Responded,
           effects := effects s @ [SendMessage (''Hello, '' @ inter_user_name i @ ''!'')]\<rparr>)"
  using assms by (simp add: hello_def max_message_len_def)

theorem hello_reply_witness:
  "hello example_user fresh_state = (Inr (), fresh_state\<lparr>response := Responded,
     effects := [SendMessage ''Hello, Osiris!'']\<rparr>)"
  using hello_reply [of fresh_state example_user] by simp

end
