(* ===== verification/Spec2Isabelle.thy ===== *)
theory Spec2Isabelle
  imports Commands
begin

text \<open>
  \<^bold>\<open>A verified model of TokenTrackr.\<close>
  TokenTrackr (\<^verbatim>\<open>src/token_trackr.py\<close>) is a Discord bot: slash commands greet the
  user (\<^verbatim>\<open>/hello\<close>), log a kill (registered as \<^verbatim>\<open>/award_token\<close>, handler
  \<^verbatim>\<open>logkill\<close>), report grouped kill statistics (\<^verbatim>\<open>/killstats\<close>) and scrape an RSI
  citizen profile with headless Chrome (\<^verbatim>\<open>/lookup\<close>). At import the module creates
  the \<^verbatim>\<open>awarded_tokens\<close> table (\<^verbatim>\<open>init_db\<close>) and starts the event loop when a token is
  configured. This development models every function of the file as a HOL definition
  that follows its statements, and proves what the handlers do on every path.

  \<^bold>\<open>Theories.\<close>
  \<^item> \<open>Prelude\<close>: the Python execution model, a state-and-exception monad
    \<open>('s, 'a) py\<close> with \<open>py_bind\<close>, \<open>py_try\<close> (\<^verbatim>\<open>try/except Exception\<close>) and
    \<open>py_finally\<close> (\<^verbatim>\<open>try/finally\<close>); the preservation predicate \<open>py_keeps\<close> with its
    closure rules \<open>keeps_intros\<close>; \<^verbatim>\<open>str.strip\<close> (with its decomposition into
    leading whitespace, stripped text and trailing whitespace) and \<^verbatim>\<open>str(int)\<close>.
  \<^item> \<open>Platform\<close>: the state \<open>bot_state\<close> (the two tables, the clock
    \<^verbatim>\<open>CURRENT_TIMESTAMP\<close> reads, the interaction's response state, the log of observable
    effects) and the response channel the handlers call: \<open>send_message\<close>,
    \<open>response_defer\<close>, \<open>followup_send\<close>, \<open>log_info\<close>, \<open>log_error\<close>. The channel
    is the SDK's contract (one initial response, follow-ups after it, 2000 characters
    per message), not code of the repository.
  \<^item> \<open>Store\<close>: \<^verbatim>\<open>init_db\<close> (lines 42--51), \<^verbatim>\<open>award_token\<close> (61--66), the
    \<^verbatim>\<open>GROUP BY\<close> query of \<^verbatim>\<open>killstats\<close> (90--94) as \<open>group_count\<close> and
    \<open>kill_stats_query\<close>.
  \<^item> \<open>Scraper\<close>: \<^verbatim>\<open>lookup\<close> (106--161) over a browser oracle, with the handler's local
    \<^verbatim>\<open>driver\<close> in a frame record, and the spec's \<^verbatim>\<open>lookupProfile\<close> contract as
    \<open>lookup_profile_spec\<close>.
  \<^item> \<open>Commands\<close>: \<^verbatim>\<open>hello\<close> (55--57), \<^verbatim>\<open>logkill\<close> (70--84, through the interface
    \<open>kill_logger option\<close> for the undefined \<^verbatim>\<open>log_kill\<close>), \<^verbatim>\<open>killstats\<close> (88--102),
    the command table \<open>dispatch\<close> and \<^verbatim>\<open>on_ready\<close> (31--38).
  \<^item> this theory: the module-level start-up (lines 16--18, 164--171) as \<open>startup\<close>,
    the event loop as the step function \<open>bot_step\<close> (a READY event, a command on a fresh
    interaction, or time passing), its runs \<open>bot_run\<close>, and the inductive set
    \<open>serving\<close> of the states a started bot can reach.

  \<^bold>\<open>How the pieces interact.\<close> A handler is a \<open>py\<close> computation on
  \<open>bot_state\<close>; \<open>bot_step\<close> resets the response state, runs the handler the command
  names, and records an exception the handler lets escape as \<open>Unhandled\<close>, as the
  command tree does. The frame properties of the handlers (the store and the clock are
  untouched, the effect log only grows, every launched browser is quit) are proved once
  per primitive and carried through the handlers by \<open>keeps_intros\<close>; the invariants of
  runs follow by induction over \<open>serving\<close> or over the event list.

  \<^bold>\<open>What is proved.\<close> Per handler, the result on every branch: the kill
  logger raises \<^verbatim>\<open>NameError\<close> on every valid input and so never logs; empty fields
  give the required-fields reply and no insert, whatever \<^verbatim>\<open>log_kill\<close> is bound to; \<^verbatim>\<open>/killstats\<close> replies \<^verbatim>\<open>No kill data
  available.\<close> on an empty table, the formatted groups otherwise (the loop equals the
  concatenation), raises when the table is missing, and fails for 48 or more groups
  because of the message limit; the grouped counts refine the multiset of rows;
  \<^verbatim>\<open>/lookup\<close> refines the spec's contract, reports the bio stripped of surrounding
  whitespace, quits the browser twice on success, raises
  \<^verbatim>\<open>UnboundLocalError\<close> when Chrome does not start, and replies with placeholders when
  the elements are missing. Across components: no run of the bot ever changes either
  table, every browser launched in any reachable state has been quit, and start-up
  without a token logs the error and never starts the event loop. \<^verbatim>\<open>bot.run\<close> is
  modelled as the effect \<open>BotRun\<close> that hands control to \<open>bot_step\<close>, so the order of
  \<^verbatim>\<open>init_db\<close> and \<^verbatim>\<open>bot.run\<close> is not an observable of the model: no handler reads
  \<^verbatim>\<open>awarded_tokens\<close>, and no property is claimed about that order.

  \<^bold>\<open>Bounds and fuel.\<close> No loop of the source can diverge (the only loop is the
  \<^verbatim>\<open>for\<close> over the query result), so every definition is total and no fuel is needed.
  The bound 48 in the \<^verbatim>\<open>/killstats\<close> theorem comes from the 42 characters every group
  adds at least and the 2000-character message limit.

  \<^bold>\<open>Not modelled.\<close> The SDK, Selenium and SQLite themselves (only the
  outcomes the code observes are modelled: the browser as an oracle, each SQL statement
  as its effect on the table); file-system failures of \<^verbatim>\<open>sqlite3.connect\<close>; the
  DOM query semantics of the XPath and class selectors (their results are the oracle's);
  the ten-second wait as time (only its outcome); concurrent interleaving of handlers at
  \<^verbatim>\<open>await\<close> points (handlers run one at a time; each touches at most one table in one
  statement); \<^verbatim>\<open>load_dotenv\<close> and the logging configuration.

  \<^bold>\<open>Plan.\<close> The components were modelled in the order of their weight in the
  program's behaviour: the persistence layer, the scraper, the command handlers, then
  start-up and the event loop. Still to come: the spec's scraper state machine
  (\<^verbatim>\<open>Idle\<close> to \<^verbatim>\<open>Done\<close>/\<^verbatim>\<open>Failed\<close>, section 4.2) as an inductive step relation,
  with a simulation of \<open>lookup_body\<close>'s effect traces; interleaved handlers at
  \<^verbatim>\<open>await\<close> points as a relation over several in-flight interactions, with the
  respond-once property per interaction; and the repaired handlers the spec asks for
  (the kill insert, a single teardown) as refinements of its contracts.
\<close>

section \<open>Start-up and the event loop\<close>

definition no_token_msg :: string where
  "no_token_msg = ''Bot token not found. Please set it in the .env file.''"

definition startup :: "string option \<Rightarrow> (bot_state, unit) py" where
  "startup token = py_seq init_db
     (case token of
        Some t \<Rightarrow> if t \<noteq> [] then emit (BotRun t) else log_error no_token_msg
      | None \<Rightarrow> log_error no_token_msg)"

definition initial_state :: "token_row list option \<Rightarrow> kill_row list option \<Rightarrow> nat \<Rightarrow> bot_state" where
  "initial_state toks ks t =
     \<lparr>awarded_tokens = toks, kills = ks, clock = t, response = NotResponded, effects = []\<rparr>"

definition boot :: "string option \<Rightarrow> token_row list option \<Rightarrow> kill_row list option \<Rightarrow> nat \<Rightarrow> bot_state" where
  "boot token toks ks t = snd (startup token (initial_state toks ks t))"

datatype bot_event =
    Ready string "exc + nat"
  | Invoke browser_env interaction command
  | Tick nat

definition run_handler :: "(bot_state, unit) py \<Rightarrow> bot_state \<Rightarrow> bot_state" where
  "run_handler m s = (case m s of
       (Inl e, s') \<Rightarrow> s'\<lparr>effects := effects s' @ [Unhandled e]\<rparr>
     | (Inr _, s') \<Rightarrow> s')"

fun bot_step :: "bot_state \<Rightarrow> bot_event \<Rightarrow> bot_state" where
  "bot_step s (Ready u r) = run_handler (on_ready u r) s"
| "bot_step s (Invoke w i c) = run_handler (dispatch w i c) (s\<lparr>response := NotResponded\<rparr>)"
| "bot_step s (Tick d) = s\<lparr>clock := clock s + d\<rparr>"

fun bot_run :: "bot_state \<Rightarrow> bot_event list \<Rightarrow> bot_state" where
  "bot_run s [] = s"
| "bot_run s (ev # evs) = bot_run (bot_step s ev) evs"

inductive serving :: "bot_state \<Rightarrow> bool" where
  boot: "t \<noteq> [] \<Longrightarrow> serving (boot (Some t) toks ks c)"
| step: "serving s \<Longrightarrow> serving (bot_step s ev)"

section \<open>Lemmas\<close>

lemma boot_store:
  "awarded_tokens (boot token toks ks c) = Some (case toks of None \<Rightarrow> [] | Some rows \<Rightarrow> rows) \<and>
   kills (boot token toks ks c) = ks \<and> clock (boot token toks ks c) = c \<and>
   response (boot token toks ks c) = NotResponded"
  by (cases token; cases toks) (simp_all add: boot_def startup_def initial_state_def)

lemma boot_effects_run: "t \<noteq> [] \<Longrightarrow> effects (boot (Some t) toks ks c) = [BotRun t]"
  by (simp add: boot_def startup_def initial_state_def)

lemma boot_effects_abort:
  "token = None \<or> token = Some [] \<Longrightarrow> effects (boot token toks ks c) = [LogError no_token_msg]"
  by (auto simp: boot_def startup_def initial_state_def)

lemma run_handler_keeps:
  assumes "py_keeps R m" "\<And>s e. R s (s\<lparr>effects := effects s @ [Unhandled e]\<rparr>)" "transp R"
  shows "R s (run_handler m s)"
proof -
  obtain r s' where m: "m s = (r, s')" by fastforce
  from assms(1) m have R: "R s s'" by (rule py_keepsD)
  show ?thesis
  proof (cases r)
    case (Inl e)
    have "R s' (s'\<lparr>effects := effects s' @ [Unhandled e]\<rparr>)" by (rule assms(2))
    with R have "R s (s'\<lparr>effects := effects s' @ [Unhandled e]\<rparr>)" by (rule transpD [OF assms(3)])
    with m Inl show ?thesis by (simp add: run_handler_def)
  next
    case (Inr u)
    with m R show ?thesis by (simp add: run_handler_def)
  qed
qed

lemma bot_step_store:
  "awarded_tokens (bot_step s ev) = awarded_tokens s \<and> kills (bot_step s ev) = kills s"
proof (cases ev)
  case (Ready u r)
  have "same_store s (run_handler (on_ready u r) s)"
    by (rule run_handler_keeps [OF on_ready_keeps(1)]) (simp_all add: same_store_def)
  then show ?thesis using Ready by (simp add: same_store_def)
next
  case (Invoke w i c)
  have "same_store (s\<lparr>response := NotResponded\<rparr>) (run_handler (dispatch w i c) (s\<lparr>response := NotResponded\<rparr>))"
    by (rule run_handler_keeps [OF dispatch_keeps(1)]) (simp_all add: same_store_def)
  then show ?thesis using Invoke by (simp add: same_store_def)
next
  case (Tick d)
  then show ?thesis by simp
qed

lemma bot_step_balanced:
  "browser_balanced s (bot_step s ev)"
proof (cases ev)
  case (Ready u r)
  have "browser_balanced s (run_handler (on_ready u r) s)"
    by (rule run_handler_keeps [OF on_ready_keeps(3)]) (simp_all add: browser_balanced_append)
  then show ?thesis using Ready by simp
next
  case (Invoke w i c)
  have "browser_balanced (s\<lparr>response := NotResponded\<rparr>) (run_handler (dispatch w i c) (s\<lparr>response := NotResponded\<rparr>))"
    by (rule run_handler_keeps [OF dispatch_keeps(3)]) (simp_all add: browser_balanced_append)
  then show ?thesis using Invoke by (simp add: browser_balanced_def new_effects_def)
next
  case (Tick d)
  then show ?thesis by (simp add: browser_balanced_def new_effects_def)
qed

lemma bot_run_store:
  "awarded_tokens (bot_run s evs) = awarded_tokens s \<and> kills (bot_run s evs) = kills s"
  by (induction evs arbitrary: s) (simp_all add: bot_step_store)

section \<open>Properties of the running bot\<close>

text \<open>C2: No run of the bot ever writes either table: after start-up, whatever the
  sequence of events, \<^verbatim>\<open>awarded_tokens\<close> holds exactly the rows it had when the bot
  started (an empty table if it had none) and \<^verbatim>\<open>kills\<close> is what it was. Tokens are
  never awarded (\<^verbatim>\<open>award_token\<close> is registered as no command) and kills are never
  logged (\<^verbatim>\<open>log_kill\<close> is undefined).\<close>

theorem bot_run_tables_frozen:
  "awarded_tokens (bot_run (boot token toks ks c) evs) = Some (case toks of None \<Rightarrow> [] | Some rows \<Rightarrow> rows) \<and>
   kills (bot_run (boot token toks ks c) evs) = ks"
  using boot_store [of token toks ks c] bot_run_store [of "boot token toks ks c" evs] by simp

text \<open>C8: In a deployment where the \<^verbatim>\<open>kills\<close> table does not exist (no code of the bot
  creates it), every \<^verbatim>\<open>/killstats\<close> command, after any run, fails with
  \<^verbatim>\<open>OperationalError\<close>: the user gets no reply and the exception is reported.\<close>

theorem fresh_deployment_killstats:
  assumes "s = bot_run (boot token toks None c) evs"
  shows "bot_step s (Invoke w i KillStats) =
     s\<lparr>response := NotResponded,
       effects := effects s @ [Unhandled (OperationalError ''no such table: kills'')]\<rparr>"
proof -
  have "kills s = None" using assms boot_store [of token toks None c] bot_run_store [of "boot token toks None c" evs]
    by simp
  then show ?thesis by (simp add: killstats_def run_handler_def)
qed

theorem fresh_deployment_killstats_witness:
  "bot_step (bot_run (boot (Some ''tok'') None None 0) [Tick 5]) (Invoke example_browser example_user KillStats) =
     (bot_run (boot (Some ''tok'') None None 0) [Tick 5])\<lparr>response := NotResponded,
       effects := effects (bot_run (boot (Some ''tok'') None None 0) [Tick 5]) @
         [Unhandled (OperationalError ''no such table: kills'')]\<rparr>"
  using fresh_deployment_killstats [of "bot_run (boot (Some ''tok'') None None 0) [Tick 5]" "Some ''tok''" None 0
      "[Tick 5]" example_browser example_user] by simp

text \<open>C4: In every state a started bot reaches, every Chrome session it launched has been
  quit: the effect log holds at least as many \<^verbatim>\<open>driver.quit()\<close> calls as launches.\<close>

theorem serving_browser_teardown:
  assumes "serving s"
  shows "count_list (effects s) ChromeLaunch \<le> count_list (effects s) ChromeQuit"
  using assms
proof (induction rule: serving.induct)
  case (boot t toks ks c)
  then show ?case by (simp add: boot_effects_run)
next
  case (step s ev)
  obtain es where "effects (bot_step s ev) = effects s @ es"
    "count_list es ChromeLaunch \<le> count_list es ChromeQuit"
    using bot_step_balanced[of s ev] by (auto simp: browser_balanced_def new_effects_def prefix_def)
  with step.IH show ?case by simp
qed

theorem serving_browser_teardown_witness:
  "count_list (effects (bot_step (boot (Some ''tok'') None None 0) (Invoke example_browser example_user (Lookup ''Osiris''))))
     ChromeLaunch \<le>
   count_list (effects (bot_step (boot (Some ''tok'') None None 0) (Invoke example_browser example_user (Lookup ''Osiris''))))
     ChromeQuit"
proof -
  have "serving (boot (Some ''tok'') None None 0)" by (rule serving.boot) simp
  then have "serving (bot_step (boot (Some ''tok'') None None 0) (Invoke example_browser example_user (Lookup ''Osiris'')))"
    by (rule serving.step)
  then show ?thesis by (rule serving_browser_teardown)
qed

text \<open>C18: Start-up without a token (unset, or set to the empty string, which Python
  treats as false) logs the error and never starts the event loop; the token table has
  nevertheless been created, since \<^verbatim>\<open>init_db\<close> runs first.\<close>

theorem startup_without_token:
  assumes "token = None \<or> token = Some []"
  shows "effects (boot token toks ks c) = [LogError no_token_msg] \<and> awarded_tokens (boot token toks ks c) \<noteq> None"
  using assms boot_store [of token toks ks c] by (simp add: boot_effects_abort)

theorem startup_without_token_witness:
  "effects (boot (Some []) None None 0) = [LogError no_token_msg] \<and> awarded_tokens (boot (Some []) None None 0) \<noteq> None"
  using startup_without_token [of "Some []" None None 0] by simp

end
